theory Spec2Isabelle
  imports Complex_Main "HOL-Library.Sublist"
begin

section \<open>Data model\<close>

text \<open>
  A thrown JavaScript exception. Every function of the source that can throw returns
  \<open>error + 'a\<close> in the model, with \<open>Inl\<close> for the exception.
\<close>

datatype error = JsError string

text \<open>
  The candidate object a selector strategy of \<open>selector-generator.js\<close> returns:
  \<open>{selector, type, confidence, ...}\<close>. The strategy-specific remaining properties
  (\<open>attribute\<close>, \<open>value\<close>, \<open>role\<close>, \<open>text\<close>, \<open>classes\<close>, \<open>placeholder\<close>) are
  kept, in the order the source writes them, in \<open>extra\<close>. The confidence literals of the
  source (0.9, 0.8, ...) are only stored and compared; they are modelled as exact reals.
\<close>

record selector_info =
  selector :: string
  stype :: string
  confidence :: real
  extra :: "(string \<times> string) list"

text \<open>The Selector Result \<open>{primary, type, confidence, fallbacks}\<close> of \<open>generateSelector\<close>.\<close>

record selector_result =
  primary :: string
  rtype :: string
  rconfidence :: real
  fallbacks :: "selector_info list"

text \<open>
  The \<open>selector\<close> property of an Action Record is duck-typed: the recorder stores a
  Selector Result object, \<open>addWaitStrategies\<close> stores the primary string itself.
\<close>

datatype sel = SelObj selector_result | SelStr string

text \<open>
  The \<open>element\<close> property of an Action Record, with the properties the Action Parser reads.
  A property that is absent (\<open>undefined\<close>) is \<open>None\<close>.
\<close>

record parent_info =
  ptagName :: "string option"
  pid :: "string option"
  pclassName :: "string option"

record element =
  tagName :: "string option"
  elem_id :: "string option"
  elem_name :: "string option"
  textContent :: "string option"
  attributes :: "(string \<times> string) list option"
  parent :: "parent_info option"

record expected_element =
  ee_selector :: "string option"
  ee_type :: string

text \<open>
  An Action Record as the Action Parser reads it. \<open>actions\<close> is the sub-action array
  of a \<open>form_sequence\<close> (read for that type only; the empty list elsewhere).
  Properties the parser pipeline never reads (\<open>coordinates\<close>, \<open>method\<close>) are left out.
\<close>

datatype action = Action
  (atype: string)
  (timestamp: int)
  (aselector: "sel option")
  (element: "element option")
  (url: "string option")
  (avalue: "string option")
  (key: "string option")
  (strategy: "string option")
  (timeout: "int option")
  (actions: "action list")
  (description: "string option")
  (expectedElements: "expected_element list option")

section \<open>Action Parser: redundancy elimination\<close>

text \<open>\<open>x.selector?.primary\<close>: \<open>undefined\<close> when there is no selector or it is a string.\<close>

fun selector_primary :: "sel option \<Rightarrow> string option" where
  "selector_primary None = None"
| "selector_primary (Some (SelObj r)) = Some (primary r)"
| "selector_primary (Some (SelStr s)) = None"

text \<open>
  \<open>removeRedundantActions\<close>: the loop over \<open>i\<close> reads \<open>current = actions[i]\<close> and
  \<open>next = actions[i + 1]\<close> (\<open>undefined\<close> at the last index, here \<open>None\<close>) and either
  skips \<open>current\<close> (\<open>continue\<close>) or pushes it onto \<open>filtered\<close>.
\<close>

definition next_of :: "action list \<Rightarrow> action option" where
  "next_of rest = (case rest of [] \<Rightarrow> None | n # _ \<Rightarrow> Some n)"

definition redundant :: "action \<Rightarrow> action option \<Rightarrow> bool" where
  "redundant current nxt =
     (case nxt of
        None \<Rightarrow> False
      | Some n \<Rightarrow>
          (atype current = ''click'' \<and> atype n = ''click'' \<and>
             selector_primary (aselector current) = selector_primary (aselector n))
        \<or> (atype current = ''input'' \<and> atype n = ''input'' \<and>
             selector_primary (aselector current) = selector_primary (aselector n))
        \<or> (atype current = ''hover'' \<and> atype n = ''click'' \<and>
             selector_primary (aselector current) = selector_primary (aselector n)))"

fun removeRedundantActions :: "action list \<Rightarrow> action list" where
  "removeRedundantActions [] = []"
| "removeRedundantActions (current # rest) =
     (if redundant current (next_of rest) then removeRedundantActions rest
      else current # removeRedundantActions rest)"

section \<open>JavaScript strings and coercions\<close>

text \<open>
  Characters that the source writes inside its string and template literals: the double
  quote, the single quote, the newline and the backslash.
\<close>

definition dq :: string where "dq = [CHR 0x22]"
definition sq :: string where "sq = [CHR 0x27]"
definition nl :: string where "nl = [CHR 0x0A]"
definition bs :: string where "bs = [CHR 0x5C]"

text \<open>A number that holds an integer, converted to a string as a template literal does.\<close>

fun string_of_nat :: "nat \<Rightarrow> string" where
  "string_of_nat n =
     (if n < 10 then [''0123456789'' ! n]
      else string_of_nat (n div 10) @ [''0123456789'' ! (n mod 10)])"

declare string_of_nat.simps [simp del]

definition string_of_int :: "int \<Rightarrow> string" where
  "string_of_int i =
     (if i < 0 then CHR ''-'' # string_of_nat (nat (- i)) else string_of_nat (nat i))"

text \<open>A string-or-undefined value inside a template literal.\<close>

fun js_str :: "string option \<Rightarrow> string" where
  "js_str None = ''undefined''"
| "js_str (Some s) = s"

text \<open>Truthiness of a string-or-undefined value: \<open>undefined\<close> and the empty string are falsy.\<close>

fun truthy :: "string option \<Rightarrow> bool" where
  "truthy None = False"
| "truthy (Some s) = (s \<noteq> [])"

text \<open>\<open>a || b\<close> on string-or-undefined values.\<close>

definition js_or :: "string option \<Rightarrow> string option \<Rightarrow> string option" where
  "js_or a b = (if truthy a then a else b)"

text \<open>Truthiness of the duck-typed \<open>selector\<close> property, and its text in a template literal.\<close>

fun sel_truthy :: "sel option \<Rightarrow> bool" where
  "sel_truthy None = False"
| "sel_truthy (Some (SelObj r)) = True"
| "sel_truthy (Some (SelStr s)) = (s \<noteq> [])"

fun sel_str :: "sel option \<Rightarrow> string" where
  "sel_str None = ''undefined''"
| "sel_str (Some (SelObj r)) = ''[object Object]''"
| "sel_str (Some (SelStr s)) = s"

text \<open>\<open>Array.prototype.join\<close>.\<close>

fun join :: "string \<Rightarrow> string list \<Rightarrow> string" where
  "join sep [] = []"
| "join sep [x] = x"
| "join sep (x # y # ys) = x @ sep @ join sep (y # ys)"

section \<open>Action Parser: element classification\<close>

record parser_options =
  optimizeSequences :: bool
  groupSimilarActions :: bool
  generateWaitStrategies :: bool
  minWaitTime :: int
  maxWaitTime :: int

text \<open>The options the constructor sets when it is called without arguments.\<close>

definition default_parser_options :: parser_options where
  "default_parser_options =
     \<lparr>optimizeSequences = True, groupSimilarActions = True, generateWaitStrategies = True,
      minWaitTime = 100, maxWaitTime = 5000\<rparr>"

text \<open>\<open>element.attributes?.type\<close>.\<close>

definition attr_type :: "element \<Rightarrow> string option" where
  "attr_type e = (case attributes e of None \<Rightarrow> None | Some m \<Rightarrow> map_of m ''type'')"

definition isFormElement :: "element option \<Rightarrow> bool" where
  "isFormElement el =
     (case el of
        None \<Rightarrow> False
      | Some e \<Rightarrow>
          tagName e \<in> {Some ''input'', Some ''select'', Some ''textarea'', Some ''button''}
          \<or> attr_type e = Some ''submit'')"

definition isSubmitButton :: "element option \<Rightarrow> bool" where
  "isSubmitButton el =
     (case el of
        None \<Rightarrow> False
      | Some e \<Rightarrow>
          attr_type e = Some ''submit''
          \<or> (tagName e = Some ''button'' \<and> \<not> truthy (attr_type e))
          \<or> (tagName e = Some ''button'' \<and> attr_type e = Some ''submit''))"

section \<open>Action Parser: sequence grouping\<close>

definition generateFormDescription :: "action list \<Rightarrow> string" where
  "generateFormDescription formActions =
     (let fieldCount = length (filter (\<lambda>a. atype a = ''input'') formActions);
          hasSubmit = list_ex (\<lambda>a. atype a = ''click'' \<and>
                        (case element a of
                           None \<Rightarrow> False
                         | Some e \<Rightarrow> attr_type e = Some ''submit'' \<or> tagName e = Some ''button''))
                      formActions;
          desc = ''Fill form with '' @ string_of_nat fieldCount @ '' field''
                        @ (if fieldCount \<noteq> 1 then ''s'' else [])
      in if hasSubmit then desc @ '' and submit'' else desc)"

text \<open>
  \<open>finalizeGroup\<close>: a form group of more than one action becomes one composite
  \<open>form_sequence\<close> record with the four properties the source gives it.
\<close>

definition finalizeGroup :: "action list \<Rightarrow> string option \<Rightarrow> action list" where
  "finalizeGroup grp groupType =
     (case grp of
        g0 # g1 # _ \<Rightarrow>
          (if groupType = Some ''form''
           then [Action ''form_sequence'' (timestamp g0) None None None None None None None
                   grp (Some (generateFormDescription grp)) None]
           else grp)
      | _ \<Rightarrow> grp)"

text \<open>
  \<open>groupSequentialActions\<close>: the \<open>for ... of\<close> loop, with its three mutable variables
  \<open>grouped\<close>, \<open>currentGroup\<close> and \<open>currentGroupType\<close> (\<open>null\<close> is \<open>None\<close>) as
  arguments; the first equation is the code after the loop.
\<close>

fun groupLoop :: "action list \<Rightarrow> action list \<Rightarrow> action list \<Rightarrow> string option \<Rightarrow> action list" where
  "groupLoop [] grouped currentGroup currentGroupType =
     (if length currentGroup > 0 then grouped @ finalizeGroup currentGroup currentGroupType
      else grouped)"
| "groupLoop (action # rest) grouped currentGroup currentGroupType =
     (if atype action \<in> {''input'', ''select'', ''click''} \<and> isFormElement (element action) then
        (if currentGroupType \<noteq> Some ''form'' then
           groupLoop rest
             (if length currentGroup > 0 then grouped @ finalizeGroup currentGroup currentGroupType
              else grouped)
             [action] (Some ''form'')
         else groupLoop rest grouped (currentGroup @ [action]) currentGroupType)
      else if atype action = ''navigation'' then
        groupLoop rest
          ((if length currentGroup > 0 then grouped @ finalizeGroup currentGroup currentGroupType
            else grouped) @ [action])
          [] None
      else
        (if truthy currentGroupType \<and> currentGroupType \<noteq> Some ''general'' then
           groupLoop rest (grouped @ finalizeGroup currentGroup currentGroupType)
             [action] (Some ''general'')
         else groupLoop rest grouped (currentGroup @ [action]) (Some ''general'')))"

definition groupSequentialActions :: "action list \<Rightarrow> action list" where
  "groupSequentialActions acts = groupLoop acts [] [] None"

section \<open>Action Parser: wait-strategy insertion\<close>

text \<open>The object \<open>determineWaitStrategy\<close> returns (\<open>null\<close> is \<open>None\<close>).\<close>

record wait_strategy =
  ws_type :: string
  ws_selector :: "string option"
  ws_timeout :: int
  ws_url :: "string option"

definition determineWaitStrategy ::
  "parser_options \<Rightarrow> action \<Rightarrow> action option \<Rightarrow> wait_strategy option" where
  "determineWaitStrategy opts currentAction nxt =
     (case nxt of
        None \<Rightarrow> None
      | Some nextAction \<Rightarrow>
          (let timeDiff = timestamp nextAction - timestamp currentAction in
           if atype currentAction = ''navigation'' then
             Some \<lparr>ws_type = ''networkidle'', ws_selector = None, ws_timeout = 5000, ws_url = None\<rparr>
           else if atype currentAction = ''click'' \<and> atype nextAction = ''navigation'' then
             Some \<lparr>ws_type = ''navigation'', ws_selector = None, ws_timeout = 10000, ws_url = None\<rparr>
           else if atype currentAction = ''click'' \<and> timeDiff > minWaitTime opts
                   \<and> sel_truthy (aselector nextAction) then
             Some \<lparr>ws_type = ''visible'',
                   ws_selector = selector_primary (aselector nextAction),
                   ws_timeout = min (timeDiff * 2) (maxWaitTime opts), ws_url = None\<rparr>
           else if atype currentAction = ''click'' \<and> isSubmitButton (element currentAction) then
             Some \<lparr>ws_type = ''networkidle'', ws_selector = None, ws_timeout = 10000, ws_url = None\<rparr>
           else if atype currentAction = ''api_call'' then
             Some \<lparr>ws_type = ''response'', ws_selector = None, ws_timeout = 5000,
                   ws_url = url currentAction\<rparr>
           else None))"

text \<open>
  The synthetic \<open>wait\<close> record \<open>addWaitStrategies\<close> pushes: type, strategy, selector (the
  primary string when the strategy has one), timeout and \<open>current.timestamp + 1\<close>. The
  strategy's \<open>url\<close> is not copied.
\<close>

definition wait_record :: "wait_strategy \<Rightarrow> action \<Rightarrow> action" where
  "wait_record waitStrategy current =
     Action ''wait'' (timestamp current + 1) (map_option SelStr (ws_selector waitStrategy))
       None None None None (Some (ws_type waitStrategy)) (Some (ws_timeout waitStrategy))
       [] None None"

fun addWaitStrategies :: "parser_options \<Rightarrow> action list \<Rightarrow> action list" where
  "addWaitStrategies opts [] = []"
| "addWaitStrategies opts (current # rest) =
     (case determineWaitStrategy opts current (next_of rest) of
        None \<Rightarrow> current # addWaitStrategies opts rest
      | Some waitStrategy \<Rightarrow>
          current # wait_record waitStrategy current # addWaitStrategies opts rest)"

section \<open>Action Parser: form-sequence reordering\<close>

definition identifyFormContainer :: "action \<Rightarrow> string" where
  "identifyFormContainer a =
     (case element a of
        None \<Rightarrow> ''default''
      | Some e \<Rightarrow>
          (case parent e of
             None \<Rightarrow> ''default''
           | Some p \<Rightarrow>
               if ptagName p = Some ''form''
               then js_str (js_or (pid p) (js_or (pclassName p) (Some ''form'')))
               else ''default''))"

text \<open>
  The comparator of \<open>optimizeFormGroup\<close> subtracts \<open>order[type] || 0\<close>; the array sort is
  stable, as is \<open>sort_key\<close>. Action types are action kinds, never names of properties
  that every JavaScript object inherits.
\<close>

definition form_order :: "action \<Rightarrow> nat" where
  "form_order a =
     (if atype a = ''input'' then 0
      else if atype a = ''select'' then 1
      else if atype a = ''textarea'' then 2
      else if atype a = ''click'' then 3
      else 0)"

definition optimizeFormGroup :: "action list \<Rightarrow> string \<Rightarrow> action list" where
  "optimizeFormGroup acts container = sort_key form_order acts"

text \<open>
  \<open>formGroups\<close> is a \<open>Map\<close>, iterated in the order its keys were first set: an association
  list in insertion order.
\<close>

fun formGroups_push :: "string \<Rightarrow> action \<Rightarrow> (string \<times> action list) list \<Rightarrow> (string \<times> action list) list" where
  "formGroups_push k a [] = [(k, [a])]"
| "formGroups_push k a ((k', as) # m) =
     (if k = k' then (k', as @ [a]) # m else (k', as) # formGroups_push k a m)"

definition optimizeFormSequence :: "action list \<Rightarrow> action list" where
  "optimizeFormSequence formActions =
     (let formGroups = foldl (\<lambda>m a. formGroups_push (identifyFormContainer a) a m) [] formActions
      in concat (map (\<lambda>(container, acts). optimizeFormGroup acts container) formGroups))"

definition optimizeFormFilling :: "action list \<Rightarrow> action list" where
  "optimizeFormFilling acts =
     map (\<lambda>a. if atype a = ''form_sequence''
              then Action (atype a) (timestamp a) (aselector a) (element a) (url a) (avalue a)
                     (key a) (strategy a) (timeout a) (optimizeFormSequence (actions a))
                     (description a) (expectedElements a)
              else a) acts"

section \<open>Action Parser: navigation look-ahead\<close>

definition extractExpectedElements :: "action list \<Rightarrow> expected_element list" where
  "extractExpectedElements acts =
     map (\<lambda>a. \<lparr>ee_selector = selector_primary (aselector a), ee_type = atype a\<rparr>)
       (filter (\<lambda>a. sel_truthy (aselector a)) acts)"

text \<open>\<open>actions.slice(startIndex + 1, startIndex + 1 + count)\<close>.\<close>

definition getSubsequentActions :: "action list \<Rightarrow> nat \<Rightarrow> nat \<Rightarrow> action list" where
  "getSubsequentActions acts startIndex count = take count (drop (startIndex + 1) acts)"

definition optimizeNavigation :: "action list \<Rightarrow> action list" where
  "optimizeNavigation acts =
     map (\<lambda>(i, a).
            if atype a = ''navigation''
            then Action (atype a) (timestamp a) (aselector a) (element a) (url a) (avalue a)
                   (key a) (strategy a) (timeout a) (actions a) (description a)
                   (Some (extractExpectedElements (getSubsequentActions acts i 3)))
            else a)
       (List.enumerate 0 acts)"

section \<open>Action Parser: conversion to Test Steps\<close>

text \<open>
  The \<open>data\<close> object of a Test Step. \<open>elementText\<close> and \<open>elementType\<close> are set whenever
  the action has an element, to values that may themselves be \<open>undefined\<close>: the outer
  \<open>None\<close> is an absent key.
\<close>

record data_payload =
  inputValue :: "string option"
  optionValue :: "string option"
  elementText :: "string option option"
  elementType :: "string option option"

record assertion =
  as_type :: string
  as_description :: string
  as_code :: string

record test_step =
  step_id :: int
  step_type :: string
  step_description :: string
  step_code :: string
  step_selector :: "sel option"
  step_data :: "data_payload option"
  step_assertions :: "assertion list option"
  step_timestamp :: int

text \<open>\<open>action.element?.p\<close> for a property \<open>p\<close> of the element.\<close>

definition elem_prop :: "(element \<Rightarrow> string option) \<Rightarrow> action \<Rightarrow> string option" where
  "elem_prop p a = (case element a of None \<Rightarrow> None | Some e \<Rightarrow> p e)"

definition generateStepDescription :: "action \<Rightarrow> string" where
  "generateStepDescription a =
     (if atype a = ''navigation'' then ''Navigate to '' @ js_str (url a)
      else if atype a = ''click'' then
        (if truthy (elem_prop textContent a)
         then ''Click '' @ dq @ take 30 (js_str (elem_prop textContent a)) @ dq
         else ''Click '' @ js_str (js_or (elem_prop tagName a) (Some ''element'')))
      else if atype a = ''input'' then
        ''Enter text in ''
          @ js_str (js_or (elem_prop elem_name a) (js_or (elem_prop elem_id a) (Some ''field'')))
      else if atype a = ''select'' then
        ''Select option in '' @ js_str (js_or (elem_prop elem_name a) (Some ''dropdown''))
      else if atype a = ''hover'' then
        ''Hover over '' @ js_str (js_or (elem_prop tagName a) (Some ''element''))
      else if atype a = ''keypress'' then ''Press '' @ js_str (key a) @ '' key''
      else if atype a = ''wait'' then
        ''Wait for '' @ js_str (strategy a)
          @ (if sel_truthy (aselector a) then '' ('' @ sel_str (aselector a) @ '')'' else [])
      else if atype a = ''form_sequence'' then
        js_str (js_or (description a) (Some ''Fill and submit form''))
      else if atype a = ''api_call'' then ''API call to '' @ js_str (url a)
      else ''Perform '' @ atype a)"

text \<open>\<open>waitAction.timeout || 1000\<close>: an absent or zero timeout is falsy.\<close>

definition timeout_or :: "int option \<Rightarrow> int \<Rightarrow> int" where
  "timeout_or t d = (case t of None \<Rightarrow> d | Some n \<Rightarrow> if n = 0 then d else n)"

definition generateWaitCode :: "action \<Rightarrow> string" where
  "generateWaitCode waitAction =
     (if strategy waitAction = Some ''visible'' then
        ''await page.locator('' @ sq @ sel_str (aselector waitAction) @ sq
          @ '').waitFor({ state: '' @ sq @ ''visible'' @ sq @ '' });''
      else if strategy waitAction = Some ''networkidle'' then
        ''await page.waitForLoadState('' @ sq @ ''networkidle'' @ sq @ '');''
      else if strategy waitAction = Some ''navigation'' then
        ''await page.waitForURL('' @ sq @ ''**'' @ sq @ '');''
      else if strategy waitAction = Some ''response'' then
        ''await page.waitForResponse('' @ sq @ js_str (url waitAction) @ sq @ '');''
      else
        ''await page.waitForTimeout('' @ string_of_int (timeout_or (timeout waitAction) 1000)
          @ '');'')"

text \<open>The primary selector inside a template literal: \<open>${action.selector?.primary}\<close>.\<close>

definition primary_str :: "action \<Rightarrow> string" where
  "primary_str a = js_str (selector_primary (aselector a))"

text \<open>
  \<open>generateStepCode\<close>, with \<open>generateFormSequenceCode\<close> (the \<open>form_sequence\<close> case, which
  calls it again on every sub-action) written in place.
\<close>

fun generateStepCode :: "action \<Rightarrow> string" where
  "generateStepCode (Action ty ts s e u v k st tmo acts d ee) =
     (let a = Action ty ts s e u v k st tmo acts d ee in
      if ty = ''navigation'' then ''await page.goto('' @ sq @ js_str u @ sq @ '');''
      else if ty = ''click'' then
        ''await page.locator('' @ sq @ primary_str a @ sq @ '').click();''
      else if ty = ''input'' then
        ''await page.locator('' @ sq @ primary_str a @ sq @ '').fill('' @ sq
          @ js_str (js_or v (Some ''${data.inputValue}'')) @ sq @ '');''
      else if ty = ''select'' then
        ''await page.locator('' @ sq @ primary_str a @ sq @ '').selectOption('' @ sq
          @ js_str (js_or v (Some ''${data.optionValue}'')) @ sq @ '');''
      else if ty = ''hover'' then
        ''await page.locator('' @ sq @ primary_str a @ sq @ '').hover();''
      else if ty = ''keypress'' then
        ''await page.keyboard.press('' @ sq @ js_str k @ sq @ '');''
      else if ty = ''wait'' then generateWaitCode a
      else if ty = ''form_sequence'' then join nl (map generateStepCode acts)
      else if ty = ''api_call'' then
        ''// Wait for API call to '' @ js_str u @ nl
          @ ''await page.waitForResponse('' @ sq @ js_str u @ sq @ '');''
      else ''// '' @ ty @ '' action'')"

definition extractStepData :: "action \<Rightarrow> data_payload option" where
  "extractStepData a =
     (let hasInput = (atype a = ''input'' \<and> truthy (avalue a));
          hasOption = (atype a = ''select'' \<and> truthy (avalue a))
      in if hasInput \<or> hasOption \<or> element a \<noteq> None
         then Some \<lparr>inputValue = (if hasInput then avalue a else None),
                    optionValue = (if hasOption then avalue a else None),
                    elementText = map_option textContent (element a),
                    elementType = map_option tagName (element a)\<rparr>
         else None)"

definition visibility_assertion :: "expected_element \<Rightarrow> assertion" where
  "visibility_assertion el =
     \<lparr>as_type = ''visibility'',
      as_description = ''Verify '' @ ee_type el @ '' element is visible'',
      as_code = ''await expect(page.locator('' @ sq @ js_str (ee_selector el) @ sq
                @ '')).toBeVisible();''\<rparr>"

definition generateAssertions :: "action \<Rightarrow> assertion list option" where
  "generateAssertions a =
     (let assertions =
        (if atype a = ''navigation'' then
           \<lparr>as_type = ''url'', as_description = ''Verify page URL'',
            as_code = ''await expect(page).toHaveURL('' @ sq @ js_str (url a) @ sq @ '');''\<rparr>
           # (case expectedElements a of
                None \<Rightarrow> []
              | Some els \<Rightarrow> map visibility_assertion els)
         else if atype a = ''click'' then
           (if elem_prop tagName a = Some ''button'' \<and> isSubmitButton (element a)
            then [\<lparr>as_type = ''form_submission'', as_description = ''Verify form submission'',
                   as_code = ''// Verify form submission was successful''\<rparr>]
            else [])
         else if atype a = ''input'' then
           [\<lparr>as_type = ''input_value'', as_description = ''Verify input value'',
             as_code = ''await expect(page.locator('' @ sq @ primary_str a @ sq
                       @ '')).toHaveValue('' @ sq @ js_str (avalue a) @ sq @ '');''\<rparr>]
         else [])
      in if length assertions > 0 then Some assertions else None)"

definition convertToTestSteps :: "action list \<Rightarrow> test_step list" where
  "convertToTestSteps optimizedActions =
     map (\<lambda>(index, a).
            \<lparr>step_id = int index + 1,
             step_type = atype a,
             step_description = generateStepDescription a,
             step_code = generateStepCode a,
             step_selector = aselector a,
             step_data = extractStepData a,
             step_assertions = generateAssertions a,
             step_timestamp = timestamp a\<rparr>)
       (List.enumerate 0 optimizedActions)"

section \<open>Action Parser: the pipeline\<close>

text \<open>
  The argument of \<open>optimizeActions\<close> is any JavaScript value: an array of Action Records,
  or something that is not an array.
\<close>

datatype recorded = NotArray | Arr "action list"

definition optimizeActions :: "parser_options \<Rightarrow> recorded \<Rightarrow> test_step list" where
  "optimizeActions opts recordedActions =
     (case recordedActions of
        NotArray \<Rightarrow> []
      | Arr acts \<Rightarrow>
          if length acts = 0 then []
          else convertToTestSteps
                 (optimizeNavigation
                   (optimizeFormFilling
                     (addWaitStrategies opts
                       (groupSequentialActions
                         (removeRedundantActions acts))))))"

section \<open>Selector Generator: element information and options\<close>

text \<open>
  The object \<open>getElementInfo\<close> computes inside the page, with the properties the selector
  strategies read. Every string property is a string (the callback writes \<open>|| ''\<close>; \<open>id\<close>
  and \<open>className\<close> are those of an HTML element), \<open>attributes\<close> maps attribute names to
  values, and \<open>index\<close> is the position among the parent's children (\<open>indexOf\<close>, so -1
  without a parent). The properties no strategy reads (\<open>title\<close>, \<open>alt\<close>, \<open>href\<close>,
  \<open>src\<close>, \<open>parent\<close>, \<open>position\<close>, \<open>isVisible\<close>) are left out.
\<close>

record element_info =
  info_tagName :: string
  info_id :: string
  info_className :: string
  info_textContent :: string
  info_innerText :: string
  info_value :: string
  info_placeholder :: string
  info_type :: string
  info_name :: string
  info_role :: string
  info_ariaLabel :: string
  info_attributes :: "(string \<times> string) list"
  info_index :: int

record generator_options =
  preferredAttributes :: "string list"
  fallbackStrategies :: "string list"
  avoidAttributes :: "string list"
  maxTextLength :: nat
  useStableSelectors :: bool

text \<open>The options the constructor sets when it is called without arguments.\<close>

definition default_generator_options :: generator_options where
  "default_generator_options =
     \<lparr>preferredAttributes = [''data-testid'', ''data-test'', ''data-cy'', ''id''],
      fallbackStrategies = [''css'', ''xpath'', ''text''],
      avoidAttributes = [''style'', ''class''],
      maxTextLength = 30,
      useStableSelectors = True\<rparr>"

section \<open>Selector Generator: the stability patterns\<close>

text \<open>
  The regular expressions of \<open>isStableId\<close> and \<open>getStableClasses\<close>, each written as the
  test on the string that it performs. Strings are sequences of 8-bit characters; the
  classes \<open>\d\<close>, \<open>\w\<close>, \<open>[a-f0-9]\<close> and the \<open>i\<close> flag concern ASCII characters only.
\<close>

definition is_digit :: "char \<Rightarrow> bool" where
  "is_digit c = (c \<in> set ''0123456789'')"

definition is_lower :: "char \<Rightarrow> bool" where
  "is_lower c = (c \<in> set ''abcdefghijklmnopqrstuvwxyz'')"

definition is_upper :: "char \<Rightarrow> bool" where
  "is_upper c = (c \<in> set ''ABCDEFGHIJKLMNOPQRSTUVWXYZ'')"

text \<open>\<open>[a-f0-9]\<close> under the \<open>i\<close> flag.\<close>

definition is_hex_i :: "char \<Rightarrow> bool" where
  "is_hex_i c = (c \<in> set ''abcdef0123456789ABCDEF'')"

text \<open>\<open>\w\<close>.\<close>

definition is_word :: "char \<Rightarrow> bool" where
  "is_word c = (is_lower c \<or> is_upper c \<or> is_digit c \<or> c = CHR ''_'')"

definition to_lower :: "char \<Rightarrow> char" where
  "to_lower c =
     (case map_of (zip ''ABCDEFGHIJKLMNOPQRSTUVWXYZ'' ''abcdefghijklmnopqrstuvwxyz'') c of
        None \<Rightarrow> c
      | Some l \<Rightarrow> l)"

text \<open>\<open>/^p/i\<close> for a lower-case literal \<open>p\<close>.\<close>

definition starts_with_i :: "string \<Rightarrow> string \<Rightarrow> bool" where
  "starts_with_i p s = (map to_lower (take (length p) s) = p)"

text \<open>\<open>/^[a-f0-9]{8,}$/i\<close>.\<close>

definition long_hex :: "string \<Rightarrow> bool" where
  "long_hex s = (length s \<ge> 8 \<and> list_all is_hex_i s)"

text \<open>\<open>/^\d+$/\<close>.\<close>

definition pure_number :: "string \<Rightarrow> bool" where
  "pure_number s = (s \<noteq> [] \<and> list_all is_digit s)"

text \<open>\<open>/^(react|vue|ng)-/i\<close>.\<close>

definition framework_prefix :: "string \<Rightarrow> bool" where
  "framework_prefix s =
     (starts_with_i ''react-'' s \<or> starts_with_i ''vue-'' s \<or> starts_with_i ''ng-'' s)"

text \<open>
  \<open>/_\d+$/\<close>: the digits that end the string are at least one and follow an underscore.
\<close>

definition underscore_number :: "string \<Rightarrow> bool" where
  "underscore_number s =
     (let r = rev s; ds = takeWhile is_digit r
      in ds \<noteq> [] \<and> take 1 (dropWhile is_digit r) = ''_'')"

definition isStableId :: "string \<Rightarrow> bool" where
  "isStableId ident =
     (\<not> (long_hex ident \<or> pure_number ident \<or> framework_prefix ident
         \<or> underscore_number ident \<or> starts_with_i ''generated'' ident))"

text \<open>
  \<open>/^\w+_\w+_[a-f0-9]+$/i\<close>: the string splits at two of its underscores into a word
  part, a word part and a hexadecimal part, none of them empty.
\<close>

definition css_module :: "string \<Rightarrow> bool" where
  "css_module s =
     list_ex (\<lambda>i. list_ex (\<lambda>j.
         s ! i = CHR ''_'' \<and> s ! j = CHR ''_''
         \<and> list_all is_word (take i s)
         \<and> list_all is_word (take (j - i - 1) (drop (i + 1) s))
         \<and> list_all is_hex_i (drop (j + 1) s))
       [i + 2 ..< length s - 1]) [1 ..< length s]"

text \<open>\<open>/^css-[a-f0-9]+$/i\<close>.\<close>

definition emotion_class :: "string \<Rightarrow> bool" where
  "emotion_class s =
     (starts_with_i ''css-'' s \<and> length s > 4 \<and> list_all is_hex_i (drop 4 s))"

text \<open>\<open>/^[A-Z][a-zA-Z0-9]{10,}$/\<close>.\<close>

definition long_pascal :: "string \<Rightarrow> bool" where
  "long_pascal s =
     (case s of
        [] \<Rightarrow> False
      | c # cs \<Rightarrow> is_upper c \<and> length cs \<ge> 10
                 \<and> list_all (\<lambda>x. is_lower x \<or> is_upper x \<or> is_digit x) cs)"

text \<open>\<open>/^\d/\<close>.\<close>

definition leading_digit :: "string \<Rightarrow> bool" where
  "leading_digit s = (case s of [] \<Rightarrow> False | c # _ \<Rightarrow> is_digit c)"

text \<open>\<open>String.prototype.split\<close> with a one-character separator.\<close>

fun split_on :: "char \<Rightarrow> string \<Rightarrow> string list" where
  "split_on sep [] = [[]]"
| "split_on sep (c # cs) =
     (if c = sep then [] # split_on sep cs
      else (case split_on sep cs of
              [] \<Rightarrow> [[c]]
            | w # ws \<Rightarrow> (c # w) # ws))"

definition getStableClasses :: "string \<Rightarrow> string list" where
  "getStableClasses classString =
     filter (\<lambda>className. \<not> (long_hex className \<or> css_module className
                \<or> emotion_class className \<or> long_pascal className
                \<or> leading_digit className))
       (filter (\<lambda>w. w \<noteq> []) (split_on CHR '' '' classString))"

text \<open>
  \<open>escapeText\<close>: a double quote becomes backslash and double quote, a newline becomes
  backslash and \<open>n\<close>, and the result is trimmed of white space at both ends (the
  white space characters that an 8-bit character can hold: the ASCII ones and the
  no-break space).
\<close>

definition is_space :: "char \<Rightarrow> bool" where
  "is_space c = (c \<in> {CHR 0x20, CHR 0x09, CHR 0x0A, CHR 0x0B, CHR 0x0C, CHR 0x0D, CHR 0xA0})"

definition trim :: "string \<Rightarrow> string" where
  "trim s = rev (dropWhile is_space (rev (dropWhile is_space s)))"

definition escapeText :: "string \<Rightarrow> string" where
  "escapeText t =
     trim (concat (map (\<lambda>c. if c = CHR 0x0A then bs @ ''n'' else [c])
            (concat (map (\<lambda>c. if c = CHR 0x22 then bs @ dq else [c]) t))))"

section \<open>Selector Generator: the strategies\<close>

text \<open>\<open>generateTestIdSelector\<close>: the loop over \<open>options.preferredAttributes\<close>.\<close>

fun preferred_loop :: "string list \<Rightarrow> element_info \<Rightarrow> selector_info option" where
  "preferred_loop [] elementInfo = None"
| "preferred_loop (attr # rest) elementInfo =
     (if truthy (map_of (info_attributes elementInfo) attr)
      then Some \<lparr>selector = ''['' @ attr @ ''='' @ dq
                     @ js_str (map_of (info_attributes elementInfo) attr) @ dq @ '']'',
                 stype = ''data-attribute'', confidence = 0.9,
                 extra = [(''attribute'', attr),
                          (''value'', js_str (map_of (info_attributes elementInfo) attr))]\<rparr>
      else preferred_loop rest elementInfo)"

definition generateTestIdSelector :: "generator_options \<Rightarrow> element_info \<Rightarrow> selector_info option" where
  "generateTestIdSelector opts elementInfo = preferred_loop (preferredAttributes opts) elementInfo"

text \<open>
  \<open>generateIdSelector\<close> calls \<open>CSS.escape\<close>, a function of the environment that the
  repository does not define: it is the parameter \<open>cssEscape\<close>, and may throw.
\<close>

definition generateIdSelector ::
  "(string \<Rightarrow> error + string) \<Rightarrow> element_info \<Rightarrow> error + selector_info option" where
  "generateIdSelector cssEscape elementInfo =
     (if info_id elementInfo \<noteq> [] \<and> isStableId (info_id elementInfo) then
        (case cssEscape (info_id elementInfo) of
           Inl e \<Rightarrow> Inl e
         | Inr escaped \<Rightarrow>
             Inr (Some \<lparr>selector = ''#'' @ escaped, stype = ''id'', confidence = 0.8,
                        extra = [(''value'', info_id elementInfo)]\<rparr>))
      else Inr None)"

definition generateNameSelector :: "element_info \<Rightarrow> selector_info option" where
  "generateNameSelector elementInfo =
     (if info_name elementInfo \<noteq> []
         \<and> info_tagName elementInfo \<in> set [''input'', ''select'', ''textarea'']
      then Some \<lparr>selector = info_tagName elementInfo @ ''[name='' @ dq
                     @ info_name elementInfo @ dq @ '']'',
                 stype = ''name'', confidence = 0.7,
                 extra = [(''value'', info_name elementInfo)]\<rparr>
      else None)"

definition generateRoleSelector :: "generator_options \<Rightarrow> element_info \<Rightarrow> selector_info option" where
  "generateRoleSelector opts elementInfo =
     (if info_role elementInfo \<noteq> [] then
        (let sel0 = ''[role='' @ dq @ info_role elementInfo @ dq @ '']'' in
         if info_ariaLabel elementInfo \<noteq> [] then
           Some \<lparr>selector = sel0 @ ''[aria-label='' @ dq @ info_ariaLabel elementInfo @ dq @ '']'',
                 stype = ''role'', confidence = 0.6,
                 extra = [(''role'', info_role elementInfo)]\<rparr>
         else if info_textContent elementInfo \<noteq> []
                 \<and> length (info_textContent elementInfo) \<le> maxTextLength opts then
           Some \<lparr>selector = sel0 @ '':has-text('' @ dq
                     @ escapeText (info_textContent elementInfo) @ dq @ '')'',
                 stype = ''role-text'', confidence = 0.75,
                 extra = [(''role'', info_role elementInfo),
                          (''text'', info_textContent elementInfo)]\<rparr>
         else
           Some \<lparr>selector = sel0, stype = ''role'', confidence = 0.6,
                 extra = [(''role'', info_role elementInfo)]\<rparr>)
      else None)"

definition generateTextSelector :: "generator_options \<Rightarrow> element_info \<Rightarrow> selector_info option" where
  "generateTextSelector opts elementInfo =
     (let text = (if info_textContent elementInfo \<noteq> [] then info_textContent elementInfo
                  else if info_innerText elementInfo \<noteq> [] then info_innerText elementInfo
                  else info_value elementInfo) in
      if text \<noteq> [] \<and> length text > 0 \<and> length text \<le> maxTextLength opts then
        (if info_tagName elementInfo \<in> set [''button'', ''a'', ''label'', ''span'']
         then Some \<lparr>selector = info_tagName elementInfo @ '':has-text('' @ dq
                        @ escapeText text @ dq @ '')'',
                    stype = ''text'', confidence = 0.65, extra = [(''text'', text)]\<rparr>
         else Some \<lparr>selector = '':has-text('' @ dq @ escapeText text @ dq @ '')'',
                    stype = ''text'', confidence = 0.5, extra = [(''text'', text)]\<rparr>)
      else if info_placeholder elementInfo \<noteq> []
              \<and> info_tagName elementInfo \<in> set [''input'', ''textarea'']
      then Some \<lparr>selector = info_tagName elementInfo @ ''[placeholder='' @ dq
                     @ info_placeholder elementInfo @ dq @ '']'',
                 stype = ''placeholder'', confidence = 0.6,
                 extra = [(''placeholder'', info_placeholder elementInfo)]\<rparr>
      else None)"

definition generateCssSelector :: "element_info \<Rightarrow> selector_info" where
  "generateCssSelector elementInfo =
     (let stableClasses = getStableClasses (info_className elementInfo);
          parts = [info_tagName elementInfo]
            @ (if info_className elementInfo \<noteq> [] \<and> length stableClasses > 0
               then [''.'' @ join ''.'' stableClasses] else [])
            @ (if info_type elementInfo \<noteq> [] \<and> info_tagName elementInfo = ''input''
               then [''[type='' @ dq @ info_type elementInfo @ dq @ '']''] else [])
      in \<lparr>selector = join [] parts, stype = ''css'', confidence = 0.4,
          extra = [(''classes'', info_className elementInfo)]\<rparr>)"

definition generateXPathSelector :: "generator_options \<Rightarrow> element_info \<Rightarrow> selector_info" where
  "generateXPathSelector opts elementInfo =
     (let conditions =
            (if info_id elementInfo \<noteq> []
             then [''@id='' @ dq @ info_id elementInfo @ dq] else [])
            @ (if info_className elementInfo \<noteq> []
               then [''contains(@class, '' @ dq
                       @ hd (split_on CHR '' '' (info_className elementInfo)) @ dq @ '')'']
               else [])
            @ (if info_textContent elementInfo \<noteq> []
                  \<and> length (info_textContent elementInfo) \<le> maxTextLength opts
               then [''contains(text(), '' @ dq
                       @ escapeText (info_textContent elementInfo) @ dq @ '')'']
               else []);
          parts = [''//'' @ info_tagName elementInfo]
            @ (if length conditions > 0 then [''['' @ join '' and '' conditions @ '']''] else [])
      in \<lparr>selector = ''xpath='' @ join [] parts, stype = ''xpath'', confidence = 0.3,
          extra = []\<rparr>)"

text \<open>\<open>generateCompositeSelector\<close>: the last resort, returned without validation.\<close>

definition generateCompositeSelector :: "element_info \<Rightarrow> selector_result" where
  "generateCompositeSelector elementInfo =
     (let attrs =
            (if info_tagName elementInfo \<noteq> [] then [info_tagName elementInfo] else [])
            @ (if info_type elementInfo \<noteq> []
               then [''[type='' @ dq @ info_type elementInfo @ dq @ '']''] else [])
            @ (if info_name elementInfo \<noteq> []
               then [''[name='' @ dq @ info_name elementInfo @ dq @ '']''] else [])
      in \<lparr>primary = join [] attrs @ '':nth-of-type(''
                      @ string_of_int (info_index elementInfo + 1) @ '')'',
          rtype = ''composite'', rconfidence = 0.2, fallbacks = []\<rparr>)"

section \<open>Selector Generator: the page and the validation\<close>

text \<open>
  An element handle is the identity of a DOM node. The page is the browser-automation
  collaborator, with the capabilities the generator uses:
  \<^item> \<open>evaluate_info\<close>: \<open>page.evaluate\<close> with the callback of \<open>getElementInfo\<close>, which
    returns the element's information or rejects;
  \<^item> \<open>evaluate_index\<close>: \<open>page.evaluate\<close> with the callback of \<open>getElementIndex\<close>;
  \<^item> \<open>locator_all\<close>: \<open>page.locator(selector).all()\<close>, the elements a selector resolves
    to, or an error;
  \<^item> \<open>evaluate_rejects\<close>: whether \<open>page.evaluate\<close> rejects when it is given two handles
    to compare (the comparison \<open>original === found\<close> itself is part of the source).
  The page is the same for the whole of one \<open>generateSelector\<close> call.
\<close>

type_synonym handle = nat

record page =
  evaluate_info :: "handle \<Rightarrow> error + element_info"
  evaluate_index :: "handle \<Rightarrow> error + int"
  locator_all :: "string \<Rightarrow> error + handle list"
  evaluate_rejects :: "handle \<Rightarrow> handle \<Rightarrow> error option"

definition getElementInfo :: "page \<Rightarrow> handle \<Rightarrow> error + element_info" where
  "getElementInfo pg elementHandle = evaluate_info pg elementHandle"

definition getElementIndex :: "page \<Rightarrow> handle \<Rightarrow> error + int" where
  "getElementIndex pg elementHandle = evaluate_index pg elementHandle"

text \<open>\<open>validateSelector\<close>: every exception inside its \<open>try\<close> block gives \<open>false\<close>.\<close>

definition validateSelector :: "page \<Rightarrow> selector_info \<Rightarrow> handle \<Rightarrow> bool" where
  "validateSelector pg selectorInfo originalElement =
     (case locator_all pg (selector selectorInfo) of
        Inl e \<Rightarrow> False
      | Inr elements \<Rightarrow>
          (case elements of
             [foundElement] \<Rightarrow>
               (case evaluate_rejects pg originalElement foundElement of
                  Some e \<Rightarrow> False
                | None \<Rightarrow> originalElement = foundElement)
           | _ \<Rightarrow> False))"

section \<open>Selector Generator: generateSelector\<close>

text \<open>
  The seven strategies, in the order of the array in \<open>generateSelector\<close>. Each is run only
  when the loop reaches it; the only one that can throw is the id strategy.
\<close>

definition strategies ::
  "generator_options \<Rightarrow> (string \<Rightarrow> error + string) \<Rightarrow> element_info
     \<Rightarrow> (error + selector_info option) list" where
  "strategies opts cssEscape elementInfo =
     [Inr (generateTestIdSelector opts elementInfo),
      generateIdSelector cssEscape elementInfo,
      Inr (generateNameSelector elementInfo),
      Inr (generateRoleSelector opts elementInfo),
      Inr (generateTextSelector opts elementInfo),
      Inr (Some (generateCssSelector elementInfo)),
      Inr (Some (generateXPathSelector opts elementInfo))]"

text \<open>
  The loop over the strategies: the first candidate that is not \<open>null\<close> and validates is
  the result (\<open>Some\<close>); \<open>None\<close> when the loop ends without one; an exception of a
  strategy leaves the loop.
\<close>

fun try_strategies ::
  "page \<Rightarrow> handle \<Rightarrow> (error + selector_info option) list \<Rightarrow> error + selector_info option" where
  "try_strategies pg elementHandle [] = Inr None"
| "try_strategies pg elementHandle (strat # rest) =
     (case strat of
        Inl e \<Rightarrow> Inl e
      | Inr None \<Rightarrow> try_strategies pg elementHandle rest
      | Inr (Some candidate) \<Rightarrow>
          if validateSelector pg candidate elementHandle then Inr (Some candidate)
          else try_strategies pg elementHandle rest)"

text \<open>The loop of \<open>generateFallbacks\<close>, which stops at two fallbacks.\<close>

fun fallback_loop ::
  "page \<Rightarrow> handle \<Rightarrow> selector_info \<Rightarrow> selector_info option list \<Rightarrow> selector_info list
     \<Rightarrow> selector_info list" where
  "fallback_loop pg elementHandle primarySelector [] fbs = fbs"
| "fallback_loop pg elementHandle primarySelector (strat # rest) fbs =
     (case strat of
        None \<Rightarrow> fallback_loop pg elementHandle primarySelector rest fbs
      | Some fallback \<Rightarrow>
          if selector fallback \<noteq> selector primarySelector
             \<and> validateSelector pg fallback elementHandle
          then (if length (fbs @ [fallback]) \<ge> 2 then fbs @ [fallback]
                else fallback_loop pg elementHandle primarySelector rest (fbs @ [fallback]))
          else fallback_loop pg elementHandle primarySelector rest fbs)"

definition generateFallbacks ::
  "generator_options \<Rightarrow> page \<Rightarrow> handle \<Rightarrow> selector_info \<Rightarrow> error + selector_info list" where
  "generateFallbacks opts pg elementHandle primarySelector =
     (case getElementInfo pg elementHandle of
        Inl e \<Rightarrow> Inl e
      | Inr elementInfo \<Rightarrow>
          Inr (fallback_loop pg elementHandle primarySelector
                 [Some (generateXPathSelector opts elementInfo),
                  Some (generateCssSelector elementInfo),
                  generateTextSelector opts elementInfo] []))"

text \<open>The body of the \<open>try\<close> block of \<open>generateSelector\<close>.\<close>

definition generateSelector_try ::
  "generator_options \<Rightarrow> (string \<Rightarrow> error + string) \<Rightarrow> page \<Rightarrow> handle
     \<Rightarrow> error + selector_result" where
  "generateSelector_try opts cssEscape pg elementHandle =
     (case getElementInfo pg elementHandle of
        Inl e \<Rightarrow> Inl e
      | Inr elementInfo \<Rightarrow>
          (case try_strategies pg elementHandle (strategies opts cssEscape elementInfo) of
             Inl e \<Rightarrow> Inl e
           | Inr (Some sel) \<Rightarrow>
               (case generateFallbacks opts pg elementHandle sel of
                  Inl e \<Rightarrow> Inl e
                | Inr fbs \<Rightarrow>
                    Inr \<lparr>primary = selector sel, rtype = stype sel,
                         rconfidence = confidence sel, fallbacks = fbs\<rparr>)
           | Inr None \<Rightarrow> Inr (generateCompositeSelector elementInfo)))"

text \<open>
  \<open>generateSelector\<close>: the \<open>catch\<close> block builds the XPath-by-position result, and to do so
  awaits \<open>getElementIndex\<close>, whose exception nothing catches.
\<close>

definition generateSelector ::
  "generator_options \<Rightarrow> (string \<Rightarrow> error + string) \<Rightarrow> page \<Rightarrow> handle
     \<Rightarrow> error + selector_result" where
  "generateSelector opts cssEscape pg elementHandle =
     (case generateSelector_try opts cssEscape pg elementHandle of
        Inr result \<Rightarrow> Inr result
      | Inl e \<Rightarrow>
          (case getElementIndex pg elementHandle of
             Inl e' \<Rightarrow> Inl e'
           | Inr i \<Rightarrow>
               Inr \<lparr>primary = ''xpath=//body//*[position()='' @ string_of_int i @ '']'',
                    rtype = ''xpath'', rconfidence = 0.1, fallbacks = []\<rparr>))"

section \<open>Recorder: starting a recording\<close>

text \<open>
  The state of a \<open>PlaywrightRecorder\<close> that \<open>startRecording\<close> reads and writes: the
  browser, context and page handles (\<open>null\<close> is \<open>None\<close>), the \<open>isRecording\<close> flag, the
  buffer of recorded actions, the test name and the start URL. Emitted events and the
  page-object map are left out.
\<close>

record recorder =
  browser :: "nat option"
  browserContext :: "nat option"
  recorderPage :: "nat option"
  isRecording :: bool
  recordedActions :: "action list"
  testName :: "string option"
  startUrl :: "string option"

text \<open>The recorder the constructor builds.\<close>

definition new_recorder :: recorder where
  "new_recorder =
     \<lparr>browser = None, browserContext = None, recorderPage = None, isRecording = False,
      recordedActions = [], testName = None, startUrl = None\<rparr>"

text \<open>
  The browser-automation side of \<open>startRecording\<close>: the next unused handle (every launch,
  context and page is a new object), the clock that \<open>Date.now()\<close> reads, and whether
  \<open>launch\<close>, \<open>newContext\<close>, \<open>newPage\<close> and \<open>goto\<close> reject.
\<close>

record world =
  fresh :: nat
  clock :: int
  launch_error :: "error option"
  newContext_error :: "error option"
  newPage_error :: "error option"
  goto_error :: "string \<Rightarrow> error option"

definition recordAction :: "action \<Rightarrow> recorder \<Rightarrow> recorder" where
  "recordAction a r = r\<lparr>recordedActions := recordedActions r @ [a]\<rparr>"

text \<open>
  \<open>startRecording\<close>: the statements of the \<open>try\<close> block in order; the \<open>catch\<close> block
  throws the error again, so a rejected call leaves the state as it was at that
  statement. The function does not read \<open>isRecording\<close>.
\<close>

definition startRecording ::
  "world \<Rightarrow> string \<Rightarrow> string \<Rightarrow> recorder \<Rightarrow> (error + bool) \<times> recorder \<times> world" where
  "startRecording w address name r =
     (case launch_error w of
        Some e \<Rightarrow> (Inl e, r, w)
      | None \<Rightarrow>
          (let r1 = r\<lparr>browser := Some (fresh w)\<rparr>;
               w1 = w\<lparr>fresh := fresh w + 1\<rparr> in
           case newContext_error w1 of
             Some e \<Rightarrow> (Inl e, r1, w1)
           | None \<Rightarrow>
               (let r2 = r1\<lparr>browserContext := Some (fresh w1)\<rparr>;
                    w2 = w1\<lparr>fresh := fresh w1 + 1\<rparr> in
                case newPage_error w2 of
                  Some e \<Rightarrow> (Inl e, r2, w2)
                | None \<Rightarrow>
                    (let r3 = r2\<lparr>recorderPage := Some (fresh w2)\<rparr>;
                         w3 = w2\<lparr>fresh := fresh w2 + 1\<rparr>;
                         r4 = r3\<lparr>isRecording := True, recordedActions := [],
                                 testName := Some name, startUrl := Some address\<rparr> in
                     case goto_error w3 address of
                       Some e \<Rightarrow> (Inl e, r4, w3)
                     | None \<Rightarrow>
                         (Inr True,
                          recordAction
                            (Action ''navigation'' (clock w3) None None (Some address) None
                               None None None [] None None) r4,
                          w3)))))"

text \<open>A world in which every browser operation succeeds.\<close>

definition working_world :: world where
  "working_world =
     \<lparr>fresh = 0, clock = 1000, launch_error = None, newContext_error = None,
      newPage_error = None, goto_error = (\<lambda>u. None)\<rparr>"

section \<open>Example pages\<close>

text \<open>An element information with a tag name and nothing else.\<close>

definition plain_info :: "string \<Rightarrow> element_info" where
  "plain_info tag =
     \<lparr>info_tagName = tag, info_id = [], info_className = [], info_textContent = [],
      info_innerText = [], info_value = [], info_placeholder = [], info_type = [],
      info_name = [], info_role = [], info_ariaLabel = [], info_attributes = [],
      info_index = 0\<rparr>"

text \<open>
  A page that holds the element of handle 0, whose selectors resolve as the table says
  (to nothing when the table has no entry) and whose evaluations succeed.
\<close>

definition table_page :: "element_info \<Rightarrow> (string \<times> handle list) list \<Rightarrow> page" where
  "table_page info table =
     \<lparr>evaluate_info = (\<lambda>h. if h = 0 then Inr info
                            else Inl (JsError ''no such element'')),
      evaluate_index = (\<lambda>h. Inr (info_index info)),
      locator_all = (\<lambda>s. case map_of table s of None \<Rightarrow> Inr [] | Some hs \<Rightarrow> Inr hs),
      evaluate_rejects = (\<lambda>a b. None)\<rparr>"

text \<open>\<open>CSS.escape\<close> on identifiers that need no escaping.\<close>

definition plain_escape :: "string \<Rightarrow> error + string" where
  "plain_escape s = Inr s"

text \<open>
  \<open>CSS.escape\<close> where the global \<open>CSS\<close> is not defined, as in Node: the call throws a
  \<open>ReferenceError\<close>.
\<close>

definition undefined_escape :: "string \<Rightarrow> error + string" where
  "undefined_escape s = Inl (JsError ''CSS is not defined'')"

text \<open>
  \<open><button data-testid="save-btn" class="css-a1b2c3d4">Save</button>\<close>, the only element
  with this test id, on a page with a second button.
\<close>

definition save_info :: element_info where
  "save_info = (plain_info ''button'')
     \<lparr>info_className := ''css-a1b2c3d4'', info_textContent := ''Save'',
      info_innerText := ''Save'',
      info_attributes := [(''data-testid'', ''save-btn''), (''class'', ''css-a1b2c3d4'')]\<rparr>"

definition save_page :: page where
  "save_page = table_page save_info
     [(''[data-testid='' @ dq @ ''save-btn'' @ dq @ '']'', [0]),
      (''button'', [0, 1]),
      (''button:has-text('' @ dq @ ''Save'' @ dq @ '')'', [0])]"

text \<open>
  \<open><button data-testid="save" id="save-btn">\<close> on a page where a second element carries
  the same test id.
\<close>

definition shared_testid_info :: element_info where
  "shared_testid_info = (plain_info ''button'')
     \<lparr>info_id := ''save-btn'',
      info_attributes := [(''data-testid'', ''save''), (''id'', ''save-btn'')]\<rparr>"

definition shared_testid_page :: page where
  "shared_testid_page = table_page shared_testid_info
     [(''[data-testid='' @ dq @ ''save'' @ dq @ '']'', [0, 1]),
      (''#save-btn'', [0])]"

text \<open>
  \<open><textarea name="msg" role="textbox">hi</textarea>\<close>, which its name selector and its
  role-with-text selector both identify.
\<close>

definition textarea_info :: element_info where
  "textarea_info = (plain_info ''textarea'')
     \<lparr>info_textContent := ''hi'', info_name := ''msg'', info_role := ''textbox'',
      info_attributes := [(''name'', ''msg''), (''role'', ''textbox'')]\<rparr>"

definition textarea_page :: page where
  "textarea_page = table_page textarea_info
     [(''textarea[name='' @ dq @ ''msg'' @ dq @ '']'', [0]),
      (''[role='' @ dq @ ''textbox'' @ dq @ '']:has-text('' @ dq @ ''hi'' @ dq @ '')'', [0])]"

text \<open>\<open><div id="deadbeef">\<close>, the only element with this id.\<close>

definition hex_id_info :: element_info where
  "hex_id_info = (plain_info ''div'')
     \<lparr>info_id := ''deadbeef'', info_attributes := [(''id'', ''deadbeef'')]\<rparr>"

definition hex_id_page :: page where
  "hex_id_page = table_page hex_id_info
     [(''[id='' @ dq @ ''deadbeef'' @ dq @ '']'', [0])]"

text \<open>
  A page on which every evaluation rejects and no selector resolves: the page has been
  closed, or the element is detached.
\<close>

definition closed_page :: page where
  "closed_page =
     \<lparr>evaluate_info = (\<lambda>h. Inl (JsError ''Target closed'')),
      evaluate_index = (\<lambda>h. Inl (JsError ''Target closed'')),
      locator_all = (\<lambda>s. Inl (JsError ''Target closed'')),
      evaluate_rejects = (\<lambda>a b. Some (JsError ''Target closed''))\<rparr>"

text \<open>
  \<open><div id="deadbeef">\<close> on a page where a \<open>span\<close> carries the same id: the attribute
  selector finds both, the XPath selector with the tag finds one.
\<close>

definition hex_id_shared_page :: page where
  "hex_id_shared_page = table_page hex_id_info
     [(''[id='' @ dq @ ''deadbeef'' @ dq @ '']'', [0, 1]),
      (''xpath=//div[@id='' @ dq @ ''deadbeef'' @ dq @ '']'', [0])]"

text \<open>The candidates and results the example pages give.\<close>

definition save_testid_candidate :: selector_info where
  "save_testid_candidate =
     \<lparr>selector = ''[data-testid='' @ dq @ ''save-btn'' @ dq @ '']'',
      stype = ''data-attribute'', confidence = 0.9,
      extra = [(''attribute'', ''data-testid''), (''value'', ''save-btn'')]\<rparr>"

definition save_result :: selector_result where
  "save_result =
     \<lparr>primary = ''[data-testid='' @ dq @ ''save-btn'' @ dq @ '']'',
      rtype = ''data-attribute'', rconfidence = 0.9,
      fallbacks = [\<lparr>selector = ''button:has-text('' @ dq @ ''Save'' @ dq @ '')'',
                     stype = ''text'', confidence = 0.65, extra = [(''text'', ''Save'')]\<rparr>]\<rparr>"

definition textarea_role_candidate :: selector_info where
  "textarea_role_candidate =
     \<lparr>selector = ''[role='' @ dq @ ''textbox'' @ dq @ '']:has-text('' @ dq @ ''hi'' @ dq @ '')'',
      stype = ''role-text'', confidence = 0.75,
      extra = [(''role'', ''textbox''), (''text'', ''hi'')]\<rparr>"

text \<open>
  Two calls of \<open>startRecording\<close> on one recorder, the second while the first recording is
  in progress.
\<close>

definition first_session :: "(error + bool) \<times> recorder \<times> world" where
  "first_session = startRecording working_world ''https://example.test/a'' ''first'' new_recorder"

definition second_session :: "(error + bool) \<times> recorder \<times> world" where
  "second_session =
     startRecording (snd (snd first_session)) ''https://example.test/b'' ''second''
       (fst (snd first_session))"

section \<open>Example recordings\<close>

text \<open>
  Records used to run the parser on concrete input: actions on the selector \<open>#btn\<close>
  and a navigation.
\<close>

definition btn_selector :: selector_result where
  "btn_selector = \<lparr>primary = ''#btn'', rtype = ''id'', rconfidence = 0.8, fallbacks = []\<rparr>"

definition btn_action :: "string \<Rightarrow> int \<Rightarrow> action" where
  "btn_action ty t =
     Action ty t (Some (SelObj btn_selector)) None None None None None None [] None None"

definition home_navigation :: action where
  "home_navigation =
     Action ''navigation'' 0 None None (Some ''https://example.test/'') None None None None
       [] None None"

section \<open>Properties of the redundancy elimination\<close>

text \<open>
  Claim C9. For every input Action Record list, the output of \<open>removeRedundantActions\<close>
  is a subsequence of its input: every surviving record is an input record, the relative
  order is preserved, nothing is duplicated or invented, and the output is no longer
  than the input.
\<close>

theorem removeRedundantActions_subseq:
  "subseq (removeRedundantActions acts) acts
   \<and> length (removeRedundantActions acts) \<le> length acts"
proof -
  have s: "subseq (removeRedundantActions acts) acts"
    by (induction acts) (auto intro: list_emb_Cons)
  from s have "length (removeRedundantActions acts) \<le> length acts"
    by (rule list_emb_length)
  with s show ?thesis by simp
qed

lemma next_of_append: "next_of (xs @ y # ys) = next_of (xs @ [y])"
  by (cases xs) (simp_all add: next_of_def)

lemma redundant_None: "\<not> redundant a None"
  by (simp add: redundant_def)

lemma rra_last: "\<exists>zs. removeRedundantActions (xs @ [y]) = zs @ [y]"
  by (induction xs) (auto simp: next_of_def redundant_None)

lemma rra_snoc_nonempty: "removeRedundantActions (xs @ [y]) \<noteq> []"
  using rra_last [of xs y] by auto

text \<open>
  Whether a record survives depends on the record and its successor only, so the output
  on a list splits at any position.
\<close>

lemma rra_append:
  "removeRedundantActions (xs @ y # ys)
     = butlast (removeRedundantActions (xs @ [y])) @ removeRedundantActions (y # ys)"
proof (induction xs)
  case Nil
  show ?case by (simp add: next_of_def redundant_None)
next
  case (Cons a xs)
  show ?case
    using Cons.IH rra_snoc_nonempty [of xs y] next_of_append [of xs y ys]
    by simp
qed

lemma redundant_cong:
  "atype b = atype a \<Longrightarrow> selector_primary (aselector b) = selector_primary (aselector a)
   \<Longrightarrow> redundant c (Some a) = redundant c (Some b)"
  by (simp add: redundant_def)

lemma rra_snoc_cong:
  assumes "atype b = atype a"
      and "selector_primary (aselector b) = selector_primary (aselector a)"
  shows "butlast (removeRedundantActions (xs @ [a])) = butlast (removeRedundantActions (xs @ [b]))"
proof (induction xs)
  case Nil
  show ?case by (simp add: next_of_def redundant_None)
next
  case (Cons c xs)
  note IH = Cons.IH
  show ?case
  proof (cases xs)
    case Nil
    then show ?thesis
      using assms redundant_cong [of b a c] by (simp add: next_of_def redundant_None)
  next
    case (Cons x xs')
    then show ?thesis
      using IH rra_snoc_nonempty [of xs a] rra_snoc_nonempty [of xs b]
      by (simp add: next_of_def)
  qed
qed

lemma rra_drop_earlier:
  assumes "redundant a (Some b)" "atype a = atype b"
    "selector_primary (aselector a) = selector_primary (aselector b)"
  shows "removeRedundantActions (xs @ a # b # ys) = removeRedundantActions (xs @ b # ys)"
proof -
  have "removeRedundantActions (xs @ a # b # ys)
        = butlast (removeRedundantActions (xs @ [a])) @ removeRedundantActions (a # b # ys)"
    by (rule rra_append)
  also have "removeRedundantActions (a # b # ys) = removeRedundantActions (b # ys)"
    using assms(1) by (simp add: next_of_def)
  also have "butlast (removeRedundantActions (xs @ [a])) = butlast (removeRedundantActions (xs @ [b]))"
    using assms(2,3) by (intro rra_snoc_cong) simp_all
  finally show ?thesis by (simp add: rra_append [of xs b ys])
qed

text \<open>
  A record survives exactly when its immediate successor does not make it redundant.
\<close>

lemma rra_characterisation:
  "removeRedundantActions acts
     = map fst (filter (\<lambda>(x, n). \<not> redundant x n) (zip acts (map Some (tl acts) @ [None])))"
proof (induction acts)
  case Nil
  show ?case by simp
next
  case (Cons c rest)
  show ?case
  proof (cases rest)
    case Nil
    then show ?thesis by (simp add: next_of_def)
  next
    case (Cons d rest')
    then show ?thesis using Cons.IH by (simp add: next_of_def)
  qed
qed

text \<open>
  A recording that comes down to one record, neither a navigation nor a form sequence,
  passes the later stages unchanged and becomes one Test Step.
\<close>

lemma single_record_steps:
  assumes "atype b \<noteq> ''navigation''" "atype b \<noteq> ''form_sequence''"
  shows "convertToTestSteps
           (optimizeNavigation (optimizeFormFilling (addWaitStrategies opts
              (groupSequentialActions [b]))))
         = [\<lparr>step_id = 1, step_type = atype b,
              step_description = generateStepDescription b,
              step_code = generateStepCode b, step_selector = aselector b,
              step_data = extractStepData b, step_assertions = generateAssertions b,
              step_timestamp = timestamp b\<rparr>]"
proof -
  have g: "groupSequentialActions [b] = [b]"
    using assms by (simp add: groupSequentialActions_def finalizeGroup_def)
  have w: "addWaitStrategies opts [b] = [b]"
    by (simp add: determineWaitStrategy_def next_of_def)
  have f: "optimizeFormFilling [b] = [b]"
    using assms by (simp add: optimizeFormFilling_def)
  have n: "optimizeNavigation [b] = [b]"
    using assms by (simp add: optimizeNavigation_def enumerate_eq_zip)
  show ?thesis
    by (simp only: g w f n) (simp add: convertToTestSteps_def enumerate_eq_zip)
qed


text \<open>
  The facts that evaluate the parser pipeline on a concrete recording.
\<close>

lemmas parser_eval = optimizeActions_def convertToTestSteps_def optimizeNavigation_def
  optimizeFormFilling_def groupSequentialActions_def finalizeGroup_def isFormElement_def
  determineWaitStrategy_def next_of_def redundant_def enumerate_eq_zip
  generateStepDescription_def generateAssertions_def extractStepData_def
  primary_str_def elem_prop_def js_or_def isSubmitButton_def wait_record_def
  generateWaitCode_def btn_action_def btn_selector_def home_navigation_def
  default_parser_options_def extractExpectedElements_def getSubsequentActions_def

text \<open>
  Claim C5, as stated, fails: of three consecutive clicks on the same selector only the
  third survives, so for the pair of the first and the second click the later action does
  not survive and no Test Step carries its timestamp.
\<close>

theorem three_clicks_counterexample:
  "removeRedundantActions
       [btn_action ''click'' 100, btn_action ''click'' 150, btn_action ''click'' 200]
     = [btn_action ''click'' 200]
   \<and> btn_action ''click'' 150
       \<notin> set (removeRedundantActions
                [btn_action ''click'' 100, btn_action ''click'' 150, btn_action ''click'' 200])
   \<and> map step_timestamp (optimizeActions default_parser_options
         (Arr [btn_action ''click'' 100, btn_action ''click'' 150, btn_action ''click'' 200]))
       = [200]"
  by (simp add: parser_eval)

text \<open>
  Claim C5, amended. A record survives the redundancy elimination exactly when its
  immediate successor does not make it redundant. So for two consecutive click records
  with the same primary selector, two consecutive input records with the same primary
  selector, or a hover immediately followed by a click on the same primary selector, the
  earlier record is dropped: the output is what survives of the records before the pair
  followed by what survives from the later record onwards, and the later record itself
  survives, right there, unless its own successor makes it redundant in turn. A recording
  that consists of just such a pair yields exactly one Test Step, that of the later
  record. For the click and the input pairs the whole Test Step output is the one of the
  list that holds only the later record.
\<close>

theorem redundant_pairs_collapse:
  assumes "selector_primary (aselector a) = selector_primary (aselector b)"
  shows "removeRedundantActions acts
           = map fst (filter (\<lambda>(x, n). \<not> redundant x n)
               (zip acts (map Some (tl acts) @ [None])))
       \<and> ((atype a = ''click'' \<and> atype b = ''click'') \<or> (atype a = ''input'' \<and> atype b = ''input'')
            \<or> (atype a = ''hover'' \<and> atype b = ''click'')
          \<longrightarrow> (\<exists>zs. removeRedundantActions (xs @ [a]) = zs @ [a]
                  \<and> removeRedundantActions (xs @ a # b # ys) = zs @ removeRedundantActions (b # ys)
                  \<and> (\<not> redundant b (next_of ys)
                       \<longrightarrow> removeRedundantActions (xs @ a # b # ys)
                             = zs @ b # removeRedundantActions ys))
              \<and> optimizeActions opts (Arr [a, b])
                  = [\<lparr>step_id = 1, step_type = atype b,
                       step_description = generateStepDescription b,
                       step_code = generateStepCode b, step_selector = aselector b,
                       step_data = extractStepData b, step_assertions = generateAssertions b,
                       step_timestamp = timestamp b\<rparr>])
       \<and> ((atype a = ''click'' \<and> atype b = ''click'') \<or> (atype a = ''input'' \<and> atype b = ''input'')
          \<longrightarrow> removeRedundantActions (xs @ a # b # ys) = removeRedundantActions (xs @ b # ys)
              \<and> optimizeActions opts (Arr (xs @ a # b # ys)) = optimizeActions opts (Arr (xs @ b # ys)))"
proof (intro conjI impI)
  show "removeRedundantActions acts
           = map fst (filter (\<lambda>(x, n). \<not> redundant x n)
               (zip acts (map Some (tl acts) @ [None])))"
    by (rule rra_characterisation)
next
  assume t: "(atype a = ''click'' \<and> atype b = ''click'') \<or> (atype a = ''input'' \<and> atype b = ''input'')
            \<or> (atype a = ''hover'' \<and> atype b = ''click'')"
  then have r: "redundant a (Some b)"
    using assms by (auto simp: redundant_def)
  obtain zs where zs: "removeRedundantActions (xs @ [a]) = zs @ [a]"
    using rra_last by blast
  have "removeRedundantActions (xs @ a # b # ys) = zs @ removeRedundantActions (a # b # ys)"
    using rra_append [of xs a "b # ys"] zs by simp
  also have "removeRedundantActions (a # b # ys) = removeRedundantActions (b # ys)"
    using r by (simp add: next_of_def)
  finally have e: "removeRedundantActions (xs @ a # b # ys) = zs @ removeRedundantActions (b # ys)" .
  have k: "\<not> redundant b (next_of ys)
             \<longrightarrow> removeRedundantActions (xs @ a # b # ys) = zs @ b # removeRedundantActions ys"
    using e by simp
  from zs e k
  show "\<exists>zs. removeRedundantActions (xs @ [a]) = zs @ [a]
            \<and> removeRedundantActions (xs @ a # b # ys) = zs @ removeRedundantActions (b # ys)
            \<and> (\<not> redundant b (next_of ys)
                 \<longrightarrow> removeRedundantActions (xs @ a # b # ys)
                       = zs @ b # removeRedundantActions ys)"
    by blast
  from t have nb: "atype b \<noteq> ''navigation''" "atype b \<noteq> ''form_sequence''"
    by auto
  have "removeRedundantActions [a, b] = [b]"
    using r by (simp add: next_of_def redundant_None)
  then show "optimizeActions opts (Arr [a, b])
                  = [\<lparr>step_id = 1, step_type = atype b,
                       step_description = generateStepDescription b,
                       step_code = generateStepCode b, step_selector = aselector b,
                       step_data = extractStepData b, step_assertions = generateAssertions b,
                       step_timestamp = timestamp b\<rparr>]"
    using single_record_steps [OF nb, of opts] by (simp add: optimizeActions_def)
next
  assume t: "(atype a = ''click'' \<and> atype b = ''click'') \<or> (atype a = ''input'' \<and> atype b = ''input'')"
  then have r: "redundant a (Some b)" and e: "atype a = atype b"
    using assms by (auto simp: redundant_def)
  show rra: "removeRedundantActions (xs @ a # b # ys) = removeRedundantActions (xs @ b # ys)"
    using r e assms by (rule rra_drop_earlier)
  show "optimizeActions opts (Arr (xs @ a # b # ys)) = optimizeActions opts (Arr (xs @ b # ys))"
    by (simp add: optimizeActions_def rra)
qed

text \<open>
  The two clicks on \<open>#btn\<close> at 100 and 150 collapse to the single click step of the later
  one, and a hover at 100 before the click at 150 is dropped.
\<close>

theorem redundant_pairs_collapse_witness:
  "removeRedundantActions [btn_action ''click'' 100, btn_action ''click'' 150]
     = [btn_action ''click'' 150]
   \<and> map step_type (optimizeActions default_parser_options
         (Arr [btn_action ''click'' 100, btn_action ''click'' 150])) = [''click'']
   \<and> map step_timestamp (optimizeActions default_parser_options
         (Arr [btn_action ''click'' 100, btn_action ''click'' 150])) = [150]
   \<and> removeRedundantActions [btn_action ''hover'' 100, btn_action ''click'' 150]
     = [btn_action ''click'' 150]
   \<and> optimizeActions default_parser_options
         (Arr [btn_action ''click'' 100, btn_action ''click'' 150])
     = optimizeActions default_parser_options (Arr [btn_action ''click'' 150])"
proof -
  let ?c1 = "btn_action ''click'' 100" and ?h1 = "btn_action ''hover'' 100"
  let ?c2 = "btn_action ''click'' 150"
  have s: "selector_primary (aselector (btn_action ty 100))
           = selector_primary (aselector ?c2)" for ty
    by (simp add: btn_action_def)
  have ty: "atype (btn_action t n) = t" "timestamp (btn_action t n) = n" for t n
    by (simp_all add: btn_action_def)
  have nr: "\<not> redundant ?c2 (next_of [])"
    by (simp add: next_of_def redundant_None)
  have one: "removeRedundantActions [x] = [x]" for x
    by (simp add: next_of_def redundant_None)
  have cc: "(atype ?c1 = ''click'' \<and> atype ?c2 = ''click'')
            \<or> (atype ?c1 = ''input'' \<and> atype ?c2 = ''input'')
            \<or> (atype ?c1 = ''hover'' \<and> atype ?c2 = ''click'')"
    by (simp add: ty)
  have hc: "(atype ?h1 = ''click'' \<and> atype ?c2 = ''click'')
            \<or> (atype ?h1 = ''input'' \<and> atype ?c2 = ''input'')
            \<or> (atype ?h1 = ''hover'' \<and> atype ?c2 = ''click'')"
    by (simp add: ty)
  note c = redundant_pairs_collapse
             [where a = ?c1 and b = ?c2 and acts = "[]" and xs = "[]" and ys = "[]"
                and opts = default_parser_options,
              OF s, THEN conjunct2, THEN conjunct1, THEN mp, OF cc]
  note h = redundant_pairs_collapse
             [where a = ?h1 and b = ?c2 and acts = "[]" and xs = "[]" and ys = "[]"
                and opts = default_parser_options,
              OF s, THEN conjunct2, THEN conjunct1, THEN mp, OF hc]
  from c [THEN conjunct1] obtain zs where
    cz: "removeRedundantActions ([] @ [?c1]) = zs @ [?c1]
         \<and> removeRedundantActions ([] @ ?c1 # ?c2 # []) = zs @ removeRedundantActions (?c2 # [])
         \<and> (\<not> redundant ?c2 (next_of [])
              \<longrightarrow> removeRedundantActions ([] @ ?c1 # ?c2 # []) = zs @ ?c2 # removeRedundantActions [])" ..
  from cz [THEN conjunct1] have "zs @ [?c1] = [?c1]"
    by (simp only: append_Nil one)
  then have z: "zs = []" by simp
  from cz [THEN conjunct2, THEN conjunct2, THEN mp, OF nr]
  have r1: "removeRedundantActions [?c1, ?c2] = [?c2]"
    by (simp only: z append_Nil removeRedundantActions.simps(1))
  note st = c [THEN conjunct2]
  have m1: "map step_type (optimizeActions default_parser_options (Arr [?c1, ?c2])) = [''click'']"
    by (simp only: st list.map test_step.select_convs ty)
  have m2: "map step_timestamp (optimizeActions default_parser_options (Arr [?c1, ?c2])) = [150]"
    by (simp only: st list.map test_step.select_convs ty)
  from h [THEN conjunct1] obtain zs' where
    hz: "removeRedundantActions ([] @ [?h1]) = zs' @ [?h1]
         \<and> removeRedundantActions ([] @ ?h1 # ?c2 # []) = zs' @ removeRedundantActions (?c2 # [])
         \<and> (\<not> redundant ?c2 (next_of [])
              \<longrightarrow> removeRedundantActions ([] @ ?h1 # ?c2 # []) = zs' @ ?c2 # removeRedundantActions [])" ..
  from hz [THEN conjunct1] have "zs' @ [?h1] = [?h1]"
    by (simp only: append_Nil one)
  then have z': "zs' = []" by simp
  from hz [THEN conjunct2, THEN conjunct2, THEN mp, OF nr]
  have r2: "removeRedundantActions [?h1, ?c2] = [?c2]"
    by (simp only: z' append_Nil removeRedundantActions.simps(1))
  have cc2: "(atype ?c1 = ''click'' \<and> atype ?c2 = ''click'')
             \<or> (atype ?c1 = ''input'' \<and> atype ?c2 = ''input'')"
    by (simp add: ty)
  note e = redundant_pairs_collapse
             [where a = ?c1 and b = ?c2 and acts = "[]" and xs = "[]" and ys = "[]"
                and opts = default_parser_options,
              OF s, THEN conjunct2, THEN conjunct2, THEN mp, OF cc2, THEN conjunct2]
  have e': "optimizeActions default_parser_options (Arr [?c1, ?c2])
            = optimizeActions default_parser_options (Arr [?c2])"
    using e by (simp only: append_Nil)
  show ?thesis by (intro conjI r1 m1 m2 r2 e')
qed

section \<open>Properties of the wait-strategy insertion\<close>

lemma aws_last: "\<exists>zs. addWaitStrategies opts (xs @ [y]) = zs @ [y]"
proof (induction xs)
  case Nil
  show ?case by (simp add: determineWaitStrategy_def next_of_def)
next
  case (Cons a xs)
  then obtain zs where "addWaitStrategies opts (xs @ [y]) = zs @ [y]" by blast
  then show ?case by (simp split: option.split)
qed

lemma aws_append:
  "addWaitStrategies opts (xs @ y # ys)
     = butlast (addWaitStrategies opts (xs @ [y])) @ addWaitStrategies opts (y # ys)"
proof (induction xs)
  case Nil
  show ?case by (simp add: determineWaitStrategy_def next_of_def)
next
  case (Cons a xs)
  have ne: "addWaitStrategies opts (xs @ [y]) \<noteq> []"
    using aws_last [of opts xs y] by auto
  show ?case
    using Cons.IH ne next_of_append [of xs y ys]
    by (simp split: option.split)
qed

text \<open>
  The output is the input with one slot after each record, and a slot holds nothing or
  one synthetic wait.
\<close>

lemma aws_slots:
  "\<exists>ws. length ws = length acts
        \<and> list_all (\<lambda>w. w = [] \<or> (\<exists>x. w = [x] \<and> atype x = ''wait'')) ws
        \<and> addWaitStrategies opts acts = concat (map2 (#) acts ws)"
proof (induction acts)
  case Nil
  show ?case by simp
next
  case (Cons a acts)
  then obtain ws where ws: "length ws = length acts"
     "list_all (\<lambda>w. w = [] \<or> (\<exists>x. w = [x] \<and> atype x = ''wait'')) ws"
     "addWaitStrategies opts acts = concat (map2 (#) acts ws)" by blast
  let ?w = "case determineWaitStrategy opts a (next_of acts) of
              None \<Rightarrow> [] | Some s \<Rightarrow> [wait_record s a]"
  have "length (?w # ws) = length (a # acts)" using ws by simp
  moreover have "list_all (\<lambda>w. w = [] \<or> (\<exists>x. w = [x] \<and> atype x = ''wait'')) (?w # ws)"
    using ws(2) by (auto simp: wait_record_def split: option.split)
  moreover have "addWaitStrategies opts (a # acts) = concat (map2 (#) (a # acts) (?w # ws))"
    using ws(3) by (simp split: option.split)
  ultimately show ?case by blast
qed

text \<open>
  Claim C6, as stated, fails: a navigation that is the last record of the sequence is
  followed by nothing, since \<open>determineWaitStrategy\<close> returns \<open>null\<close> when there is no
  next action.
\<close>

theorem trailing_navigation_counterexample:
  "atype home_navigation = ''navigation''
   \<and> addWaitStrategies default_parser_options [home_navigation] = [home_navigation]"
  by (simp add: home_navigation_def determineWaitStrategy_def next_of_def)

text \<open>
  Claim C6, amended. In the wait-strategy insertion stage, every navigation record that
  has a successor \<open>m\<close> in the sequence is immediately followed by a synthetic wait record
  of strategy \<open>networkidle\<close> with a 5000 ms timeout (stamped one millisecond after the
  navigation), which the rest of the output follows; and the output is the input with,
  after each record, nothing or exactly one synthetic wait record.
\<close>

theorem navigation_followed_by_wait:
  "(atype n = ''navigation'' \<longrightarrow>
      (\<exists>zs. addWaitStrategies opts (pre @ [n]) = zs @ [n]
          \<and> addWaitStrategies opts (pre @ n # m # post)
              = zs @ n # Action ''wait'' (timestamp n + 1) None None None None None
                         (Some ''networkidle'') (Some 5000) [] None None
                   # addWaitStrategies opts (m # post)))
   \<and> (\<exists>ws. length ws = length acts
        \<and> list_all (\<lambda>w. w = [] \<or> (\<exists>x. w = [x] \<and> atype x = ''wait'')) ws
        \<and> addWaitStrategies opts acts = concat (map2 (#) acts ws))"
proof (intro conjI impI)
  assume nav: "atype n = ''navigation''"
  obtain zs where zs: "addWaitStrategies opts (pre @ [n]) = zs @ [n]"
    using aws_last by blast
  have "addWaitStrategies opts (pre @ n # m # post) = zs @ addWaitStrategies opts (n # m # post)"
    using aws_append [of opts pre n "m # post"] zs by simp
  moreover have "addWaitStrategies opts (n # m # post)
     = n # Action ''wait'' (timestamp n + 1) None None None None None
             (Some ''networkidle'') (Some 5000) [] None None
         # addWaitStrategies opts (m # post)"
    using nav by (simp add: determineWaitStrategy_def next_of_def wait_record_def)
  ultimately show "\<exists>zs. addWaitStrategies opts (pre @ [n]) = zs @ [n]
          \<and> addWaitStrategies opts (pre @ n # m # post)
              = zs @ n # Action ''wait'' (timestamp n + 1) None None None None None
                         (Some ''networkidle'') (Some 5000) [] None None
                   # addWaitStrategies opts (m # post)"
    using zs by simp
next
  show "\<exists>ws. length ws = length acts
        \<and> list_all (\<lambda>w. w = [] \<or> (\<exists>x. w = [x] \<and> atype x = ''wait'')) ws
        \<and> addWaitStrategies opts acts = concat (map2 (#) acts ws)"
    by (rule aws_slots)
qed

text \<open>A navigation followed by a click on \<open>#btn\<close>: the wait is inserted between the two.\<close>

theorem navigation_followed_by_wait_witness:
  "atype home_navigation = ''navigation''
   \<and> addWaitStrategies default_parser_options [home_navigation, btn_action ''click'' 350]
     = [home_navigation,
        Action ''wait'' 1 None None None None None (Some ''networkidle'') (Some 5000) [] None None,
        btn_action ''click'' 350]"
proof -
  have nav: "atype home_navigation = ''navigation''"
    by (simp add: home_navigation_def)
  have one: "addWaitStrategies default_parser_options [x] = [x]" for x
    by (simp add: determineWaitStrategy_def next_of_def)
  have t: "timestamp home_navigation = 0"
    by (simp add: home_navigation_def)
  from nav
    navigation_followed_by_wait [of home_navigation default_parser_options "[]"
      "btn_action ''click'' 350" "[]" "[]"]
  obtain zs where e1: "addWaitStrategies default_parser_options ([] @ [home_navigation])
                     = zs @ [home_navigation]"
     and e2: "addWaitStrategies default_parser_options
            ([] @ home_navigation # btn_action ''click'' 350 # [])
          = zs @ home_navigation
               # Action ''wait'' (timestamp home_navigation + 1) None None None None None
                   (Some ''networkidle'') (Some 5000) [] None None
               # addWaitStrategies default_parser_options (btn_action ''click'' 350 # [])"
    by blast
  from e1 have "zs @ [home_navigation] = [home_navigation]"
    by (simp only: append_Nil one)
  then have z: "zs = []" by simp
  from e2 have "addWaitStrategies default_parser_options
                  [home_navigation, btn_action ''click'' 350]
      = [home_navigation,
         Action ''wait'' (0 + 1) None None None None None (Some ''networkidle'') (Some 5000)
           [] None None,
         btn_action ''click'' 350]"
    by (simp only: z append_Nil one t)
  then show ?thesis using nav by simp
qed

section \<open>Properties of the conversion to Test Steps\<close>

lemma enumerate_ids:
  "map (\<lambda>(index, a). int index + 1) (List.enumerate n xs)
     = [int n + 1 .. int n + int (length xs)]"
proof (induction xs arbitrary: n)
  case Nil
  then show ?case by simp
next
  case (Cons x xs)
  have "[int n + 1 .. int n + int (length (x # xs))]
          = (int n + 1) # [int (Suc n) + 1 .. int (Suc n) + int (length xs)]"
    by (subst upto_rec1) (auto simp: algebra_simps)
  then show ?case using Cons.IH [of "Suc n"] by simp
qed

lemma convert_ids: "map step_id (convertToTestSteps xs) = [1 .. int (length xs)]"
proof -
  have "map step_id (convertToTestSteps xs)
          = map (\<lambda>(index, a). int index + 1) (List.enumerate 0 xs)"
    by (simp add: convertToTestSteps_def case_prod_unfold)
  then show ?thesis using enumerate_ids [of 0 xs] by simp
qed

lemma length_convert: "length (convertToTestSteps xs) = length xs"
  by (simp add: convertToTestSteps_def)

text \<open>
  Claim C10. \<open>optimizeActions\<close> returns the empty Test Step list, without throwing, when
  its argument is not an array or is the empty array; and whatever the argument, the
  Test Steps it returns carry the ids 1, 2, ..., in this order, up to their number.
\<close>

theorem optimizeActions_degenerate_and_ids:
  "optimizeActions opts NotArray = []
   \<and> optimizeActions opts (Arr []) = []
   \<and> map step_id (optimizeActions opts input)
       = [1 .. int (length (optimizeActions opts input))]"
proof -
  have "map step_id (optimizeActions opts input)
       = [1 .. int (length (optimizeActions opts input))]"
    by (cases input) (simp_all add: optimizeActions_def convert_ids length_convert)
  then show ?thesis by (simp add: optimizeActions_def)
qed

section \<open>Properties of the Selector Generator\<close>

lemma validateSelector_iff:
  "validateSelector pg c h
     \<longleftrightarrow> locator_all pg (selector c) = Inr [h] \<and> evaluate_rejects pg h h = None"
  by (auto simp: validateSelector_def split: sum.splits list.splits option.splits)

lemma try_strategies_Some:
  "try_strategies pg h cands = Inr (Some c) \<Longrightarrow> validateSelector pg c h"
  by (induction cands) (auto split: sum.splits option.splits if_splits)

text \<open>The accepted candidate is the first of the list that validates.\<close>

lemma try_strategies_first:
  "try_strategies pg h cands = Inr (Some c) \<Longrightarrow>
     \<exists>pre post. cands = pre @ Inr (Some c) # post
        \<and> list_all (\<lambda>x. x = Inr None \<or> (\<exists>d. x = Inr (Some d) \<and> \<not> validateSelector pg d h)) pre"
proof (induction cands)
  case Nil
  then show ?case by simp
next
  case (Cons x cands)
  show ?case
  proof (cases "x = Inr (Some c) \<and> validateSelector pg c h")
    case True
    then show ?thesis
      by (intro exI [of _ "[]"] exI [of _ cands]) simp
  next
    case False
    with Cons.prems have r: "try_strategies pg h cands = Inr (Some c)"
      and x: "x = Inr None \<or> (\<exists>d. x = Inr (Some d) \<and> \<not> validateSelector pg d h)"
      by (auto split: sum.splits option.splits if_splits)
    from Cons.IH [OF r] obtain pre post where
      "cands = pre @ Inr (Some c) # post"
      "list_all (\<lambda>x. x = Inr None \<or> (\<exists>d. x = Inr (Some d) \<and> \<not> validateSelector pg d h)) pre"
      by blast
    then have "x # cands = (x # pre) @ Inr (Some c) # post"
      "list_all (\<lambda>x. x = Inr None \<or> (\<exists>d. x = Inr (Some d) \<and> \<not> validateSelector pg d h))
         (x # pre)"
      using x by simp_all
    then show ?thesis by blast
  qed
qed

lemma fallback_loop_valid:
  "list_all (\<lambda>f. validateSelector pg f h) fbs \<Longrightarrow>
   list_all (\<lambda>f. validateSelector pg f h) (fallback_loop pg h prim cands fbs)"
  by (induction cands arbitrary: fbs) (auto split: option.splits)

lemma generateFallbacks_valid:
  "generateFallbacks opts pg h prim = Inr fbs \<Longrightarrow> list_all (\<lambda>f. validateSelector pg f h) fbs"
  using fallback_loop_valid [of pg h "[]"]
  by (auto simp: generateFallbacks_def simp del: fallback_loop.simps split: sum.splits)

text \<open>
  A result of the \<open>try\<close> block is the unvalidated composite selector, or is built from a
  candidate that validated, with fallbacks that validated.
\<close>

lemma generateSelector_try_cases:
  assumes "generateSelector_try opts esc pg h = Inr r"
  shows "(\<exists>info. getElementInfo pg h = Inr info \<and> r = generateCompositeSelector info)
       \<or> (\<exists>c. validateSelector pg c h \<and> primary r = selector c \<and> rtype r = stype c
              \<and> rconfidence r = confidence c
              \<and> list_all (\<lambda>f. validateSelector pg f h) (fallbacks r))"
proof -
  from assms obtain info where info: "getElementInfo pg h = Inr info"
    by (auto simp: generateSelector_try_def split: sum.splits)
  show ?thesis
  proof (cases "try_strategies pg h (strategies opts esc info)")
    case (Inl e)
    with assms info show ?thesis by (simp add: generateSelector_try_def)
  next
    case (Inr res)
    show ?thesis
    proof (cases res)
      case None
      with assms info Inr show ?thesis by (simp add: generateSelector_try_def)
    next
      case (Some c)
      with Inr have v: "validateSelector pg c h" by (auto dest: try_strategies_Some)
      from assms info Inr Some obtain fbs where
        f: "generateFallbacks opts pg h c = Inr fbs"
        and r: "r = \<lparr>primary = selector c, rtype = stype c,
                        rconfidence = confidence c, fallbacks = fbs\<rparr>"
        by (auto simp: generateSelector_try_def split: sum.splits)
      from f have "list_all (\<lambda>f. validateSelector pg f h) fbs"
        by (rule generateFallbacks_valid)
      with v r show ?thesis by auto
    qed
  qed
qed

lemma generateSelector_validated:
  assumes "generateSelector opts esc pg h = Inr r" "rconfidence r > 0.2"
  shows "\<exists>c. validateSelector pg c h \<and> primary r = selector c
              \<and> list_all (\<lambda>f. validateSelector pg f h) (fallbacks r)"
proof (cases "generateSelector_try opts esc pg h")
  case (Inl e)
  with assms show ?thesis
    by (auto simp: generateSelector_def split: sum.splits)
next
  case (Inr r')
  with assms(1) have "r' = r" by (simp add: generateSelector_def)
  with Inr generateSelector_try_cases [of opts esc pg h r] assms(2)
  show ?thesis by (auto simp: generateCompositeSelector_def Let_def)
qed

text \<open>
  Claim C1. A candidate selector that \<open>validateSelector\<close> accepts resolves on the page to
  exactly one element, the original element handle itself. Any other outcome (no match,
  several matches, another element, an error of the locator or of the comparing
  evaluation) rejects the candidate, and the strategy loop goes on with the remaining
  strategies. So the candidate the loop accepts resolves to exactly the original element,
  and so do the primary selector and every fallback of a result of \<open>generateSelector\<close>
  that is not one of the two unvalidated last resorts (confidence 0.2 and 0.1).
\<close>

theorem validated_selector_identifies_element:
  "(validateSelector pg c h \<longrightarrow> locator_all pg (selector c) = Inr [h])
   \<and> (locator_all pg (selector c) \<noteq> Inr [h] \<or> evaluate_rejects pg h h \<noteq> None
        \<longrightarrow> \<not> validateSelector pg c h
            \<and> try_strategies pg h (Inr (Some c) # rest) = try_strategies pg h rest)
   \<and> (try_strategies pg h cands = Inr (Some c') \<longrightarrow> locator_all pg (selector c') = Inr [h])
   \<and> (generateSelector opts esc pg h = Inr r \<and> rconfidence r > 0.2
        \<longrightarrow> locator_all pg (primary r) = Inr [h]
            \<and> list_all (\<lambda>f. locator_all pg (selector f) = Inr [h]) (fallbacks r))"
proof (intro conjI impI)
  assume "validateSelector pg c h"
  then show "locator_all pg (selector c) = Inr [h]"
    by (simp add: validateSelector_iff)
next
  assume a: "locator_all pg (selector c) \<noteq> Inr [h] \<or> evaluate_rejects pg h h \<noteq> None"
  then show n: "\<not> validateSelector pg c h"
    by (auto simp: validateSelector_iff)
  then show "try_strategies pg h (Inr (Some c) # rest) = try_strategies pg h rest"
    by simp
next
  assume "try_strategies pg h cands = Inr (Some c')"
  then have "validateSelector pg c' h" by (rule try_strategies_Some)
  then show "locator_all pg (selector c') = Inr [h]"
    by (simp add: validateSelector_iff)
next
  assume a: "generateSelector opts esc pg h = Inr r \<and> rconfidence r > 0.2"
  then obtain c where c: "validateSelector pg c h" "primary r = selector c"
    "list_all (\<lambda>f. validateSelector pg f h) (fallbacks r)"
    using generateSelector_validated [of opts esc pg h r] by blast
  from c(1,2) show "locator_all pg (primary r) = Inr [h]"
    by (simp add: validateSelector_iff)
  from c(3) show "list_all (\<lambda>f. locator_all pg (selector f) = Inr [h]) (fallbacks r)"
    by (simp add: validateSelector_iff list_all_iff)
qed

text \<open>The facts that evaluate the Selector Generator on an example page.\<close>

lemmas generator_eval = generateSelector_def generateSelector_try_def getElementInfo_def
  getElementIndex_def strategies_def generateTestIdSelector_def generateIdSelector_def
  generateNameSelector_def generateRoleSelector_def generateTextSelector_def
  generateCssSelector_def generateXPathSelector_def generateCompositeSelector_def
  generateFallbacks_def validateSelector_def default_generator_options_def
  table_page_def plain_info_def plain_escape_def dq_def bs_def
  isStableId_def long_hex_def pure_number_def framework_prefix_def underscore_number_def
  starts_with_i_def to_lower_def is_digit_def is_hex_i_def is_lower_def is_upper_def
  is_word_def getStableClasses_def css_module_def emotion_class_def long_pascal_def
  leading_digit_def escapeText_def trim_def is_space_def

lemma save_page_result:
  "generateSelector default_generator_options plain_escape save_page 0 = Inr save_result"
  by (simp add: generator_eval save_page_def save_info_def save_result_def)

lemma save_page_strategies:
  "try_strategies save_page 0 (strategies default_generator_options plain_escape save_info)
     = Inr (Some save_testid_candidate)"
  by (simp add: generator_eval save_page_def save_info_def save_testid_candidate_def)

text \<open>
  On the page of the save button: the test-id candidate validates and is accepted, the
  CSS candidate \<open>button\<close> finds two elements and is rejected, and the generated result
  resolves to the element.
\<close>

theorem validated_selector_identifies_element_witness:
  "validateSelector save_page save_testid_candidate 0
   \<and> locator_all save_page (selector save_testid_candidate) = Inr [0]
   \<and> locator_all save_page (selector (generateCssSelector save_info)) = Inr [0, 1]
   \<and> \<not> validateSelector save_page (generateCssSelector save_info) 0
   \<and> try_strategies save_page 0 [Inr (Some (generateCssSelector save_info))] = Inr None
   \<and> generateSelector default_generator_options plain_escape save_page 0 = Inr save_result
   \<and> rconfidence save_result > 0.2
   \<and> locator_all save_page (primary save_result) = Inr [0]"
proof -
  have v: "validateSelector save_page save_testid_candidate 0"
    by (simp add: generator_eval save_page_def save_testid_candidate_def)
  have l: "locator_all save_page (selector (generateCssSelector save_info)) = Inr [0, 1]"
    by (simp add: generator_eval save_page_def save_info_def)
  have cf: "rconfidence save_result > 0.2"
    by (simp add: save_result_def)
  have t1: "locator_all save_page (selector save_testid_candidate) = Inr [0]"
    using v save_page_strategies
      validated_selector_identifies_element
        [of save_page save_testid_candidate 0 "[]"
            "strategies default_generator_options plain_escape save_info"
            save_testid_candidate default_generator_options plain_escape save_result]
    by blast
  have t2: "\<not> validateSelector save_page (generateCssSelector save_info) 0
            \<and> try_strategies save_page 0 (Inr (Some (generateCssSelector save_info)) # [])
                = try_strategies save_page 0 []"
    using l
      validated_selector_identifies_element
        [of save_page "generateCssSelector save_info" 0 "[]"
            "strategies default_generator_options plain_escape save_info"
            save_testid_candidate default_generator_options plain_escape save_result]
    by simp
  have t3: "locator_all save_page (primary save_result) = Inr [0]"
    using save_page_result cf
      validated_selector_identifies_element
        [of save_page save_testid_candidate 0 "[]"
            "strategies default_generator_options plain_escape save_info"
            save_testid_candidate default_generator_options plain_escape save_result]
    by blast
  from t2 have t2': "try_strategies save_page 0 [Inr (Some (generateCssSelector save_info))]
                     = Inr None"
    by simp
  from v t1 l t2 t2' save_page_result cf t3 show ?thesis by blast
qed

text \<open>
  Claim C2, as stated, fails twice. On a page where a second element carries the same
  \<open>data-testid\<close>, an element with a \<open>data-testid\<close> and a stable id does not get the
  data-attribute selector as primary: it gets the id selector (confidence 0.8) where
  \<open>CSS.escape\<close> exists, and the XPath-by-position result of the \<open>catch\<close> block (0.1)
  where \<open>CSS\<close> is not defined. And the order of the strategies is not descending in
  confidence: for the \<open>textarea\<close> the name selector (0.7) is tried first and chosen,
  with either \<open>CSS.escape\<close>, although the role-with-text selector (0.75) validates as
  well.
\<close>

theorem data_attribute_not_always_primary_counterexample:
  "map_of (info_attributes shared_testid_info) ''data-testid'' = Some ''save''
   \<and> isStableId (info_id shared_testid_info)
   \<and> generateSelector default_generator_options plain_escape shared_testid_page 0
       = Inr \<lparr>primary = ''#save-btn'', rtype = ''id'', rconfidence = 0.8, fallbacks = []\<rparr>
   \<and> generateSelector default_generator_options undefined_escape shared_testid_page 0
       = Inr \<lparr>primary = ''xpath=//body//*[position()=0]'', rtype = ''xpath'',
              rconfidence = 0.1, fallbacks = []\<rparr>
   \<and> generateSelector default_generator_options plain_escape textarea_page 0
       = Inr \<lparr>primary = ''textarea[name='' @ dq @ ''msg'' @ dq @ '']'', rtype = ''name'',
              rconfidence = 0.7, fallbacks = []\<rparr>
   \<and> generateSelector default_generator_options undefined_escape textarea_page 0
       = Inr \<lparr>primary = ''textarea[name='' @ dq @ ''msg'' @ dq @ '']'', rtype = ''name'',
              rconfidence = 0.7, fallbacks = []\<rparr>
   \<and> generateRoleSelector default_generator_options textarea_info
       = Some textarea_role_candidate
   \<and> confidence textarea_role_candidate = 0.75
   \<and> validateSelector textarea_page textarea_role_candidate 0"
proof (intro conjI)
  show "map_of (info_attributes shared_testid_info) ''data-testid'' = Some ''save''"
    by (simp add: shared_testid_info_def)
  show "isStableId (info_id shared_testid_info)"
    by (simp add: generator_eval shared_testid_info_def)
  show "generateSelector default_generator_options plain_escape shared_testid_page 0
       = Inr \<lparr>primary = ''#save-btn'', rtype = ''id'', rconfidence = 0.8, fallbacks = []\<rparr>"
    by (simp add: generator_eval shared_testid_page_def shared_testid_info_def)
  show "generateSelector default_generator_options undefined_escape shared_testid_page 0
       = Inr \<lparr>primary = ''xpath=//body//*[position()=0]'', rtype = ''xpath'',
              rconfidence = 0.1, fallbacks = []\<rparr>"
    by (simp add: generator_eval shared_testid_page_def shared_testid_info_def
          undefined_escape_def string_of_int_def string_of_nat.simps [of 0])
  show "generateSelector default_generator_options plain_escape textarea_page 0
       = Inr \<lparr>primary = ''textarea[name='' @ dq @ ''msg'' @ dq @ '']'', rtype = ''name'',
              rconfidence = 0.7, fallbacks = []\<rparr>"
    by (simp add: generator_eval textarea_page_def textarea_info_def)
  show "generateSelector default_generator_options undefined_escape textarea_page 0
       = Inr \<lparr>primary = ''textarea[name='' @ dq @ ''msg'' @ dq @ '']'', rtype = ''name'',
              rconfidence = 0.7, fallbacks = []\<rparr>"
    by (simp add: generator_eval textarea_page_def textarea_info_def undefined_escape_def)
  show "generateRoleSelector default_generator_options textarea_info
       = Some textarea_role_candidate"
    by (simp add: generator_eval textarea_info_def textarea_role_candidate_def)
  show "confidence textarea_role_candidate = 0.75"
    by (simp add: textarea_role_candidate_def)
  show "validateSelector textarea_page textarea_role_candidate 0"
    by (simp add: generator_eval textarea_page_def textarea_role_candidate_def)
qed

text \<open>The loop accepts the first entry that validates when the entries before it are rejected.\<close>

lemma try_strategies_complete:
  "list_all (\<lambda>x. x = Inr None \<or> (\<exists>d. x = Inr (Some d) \<and> \<not> validateSelector pg d h)) pre
   \<Longrightarrow> validateSelector pg c h
   \<Longrightarrow> try_strategies pg h (pre @ Inr (Some c) # post) = Inr (Some c)"
  by (induction pre) auto

text \<open>The kind and the confidence of the candidate of each strategy, in the order of the list.\<close>

lemma strategies_kinds:
  "list_all2 (\<lambda>s kinds. \<forall>c. s = Inr (Some c) \<longrightarrow> (stype c, confidence c) \<in> set kinds)
     (strategies opts esc info)
     [[(''data-attribute'', 0.9)], [(''id'', 0.8)], [(''name'', 0.7)],
      [(''role-text'', 0.75), (''role'', 0.6)],
      [(''text'', 0.65), (''text'', 0.5), (''placeholder'', 0.6)],
      [(''css'', 0.4)], [(''xpath'', 0.3)]]"
proof -
  have p: "preferred_loop attrs info = Some c
           \<Longrightarrow> stype c = ''data-attribute'' \<and> confidence c = 0.9" for attrs c
    by (induction attrs) (auto split: if_splits)
  have 1: "generateTestIdSelector opts info = Some c
           \<Longrightarrow> stype c = ''data-attribute'' \<and> confidence c = 0.9" for c
    using p by (simp add: generateTestIdSelector_def)
  have 2: "generateIdSelector esc info = Inr (Some c)
           \<Longrightarrow> stype c = ''id'' \<and> confidence c = 0.8" for c
    by (auto simp: generateIdSelector_def split: if_splits sum.splits)
  have 3: "generateNameSelector info = Some c
           \<Longrightarrow> stype c = ''name'' \<and> confidence c = 0.7" for c
    by (auto simp: generateNameSelector_def split: if_splits)
  have 4: "generateRoleSelector opts info = Some c
           \<Longrightarrow> (stype c = ''role-text'' \<and> confidence c = 0.75)
               \<or> (stype c = ''role'' \<and> confidence c = 0.6)" for c
    by (auto simp: generateRoleSelector_def Let_def split: if_splits)
  have 5: "generateTextSelector opts info = Some c
           \<Longrightarrow> (stype c = ''text'' \<and> confidence c = 0.65)
               \<or> (stype c = ''text'' \<and> confidence c = 0.5)
               \<or> (stype c = ''placeholder'' \<and> confidence c = 0.6)" for c
    by (auto simp: generateTextSelector_def Let_def split: if_splits)
  have 6: "stype (generateCssSelector info) = ''css''
           \<and> confidence (generateCssSelector info) = 0.4"
    by (simp add: generateCssSelector_def Let_def)
  have 7: "stype (generateXPathSelector opts info) = ''xpath''
           \<and> confidence (generateXPathSelector opts info) = 0.3"
    by (simp add: generateXPathSelector_def Let_def)
  show ?thesis
    unfolding strategies_def using 1 2 3 4 5 6 7 by auto
qed

text \<open>
  A result above the last resorts comes from the first entry of the strategy list that
  validates.
\<close>

lemma generateSelector_sound:
  assumes "generateSelector opts esc pg h = Inr r" "rconfidence r > 0.2"
  shows "\<exists>info pre c post.
           getElementInfo pg h = Inr info
           \<and> strategies opts esc info = pre @ Inr (Some c) # post
           \<and> list_all (\<lambda>x. x = Inr None
                          \<or> (\<exists>d. x = Inr (Some d) \<and> \<not> validateSelector pg d h)) pre
           \<and> validateSelector pg c h
           \<and> primary r = selector c \<and> rtype r = stype c \<and> rconfidence r = confidence c"
proof -
  have t: "generateSelector_try opts esc pg h = Inr r"
  proof (cases "generateSelector_try opts esc pg h")
    case (Inl e)
    with assms show ?thesis
      by (auto simp: generateSelector_def split: sum.splits)
  next
    case (Inr r')
    with assms(1) show ?thesis by (simp add: generateSelector_def)
  qed
  then obtain info where info: "getElementInfo pg h = Inr info"
    by (auto simp: generateSelector_try_def split: sum.splits)
  show ?thesis
  proof (cases "try_strategies pg h (strategies opts esc info)")
    case (Inl e)
    with t info show ?thesis by (simp add: generateSelector_try_def)
  next
    case (Inr res)
    show ?thesis
    proof (cases res)
      case None
      with t info Inr have "r = generateCompositeSelector info"
        by (simp add: generateSelector_try_def)
      with assms(2) show ?thesis by (simp add: generateCompositeSelector_def Let_def)
    next
      case (Some c)
      with Inr have ts: "try_strategies pg h (strategies opts esc info) = Inr (Some c)"
        by simp
      from ts have v: "validateSelector pg c h" by (rule try_strategies_Some)
      from try_strategies_first [OF ts] obtain pre post where
        d: "strategies opts esc info = pre @ Inr (Some c) # post"
        and p: "list_all (\<lambda>x. x = Inr None
                    \<or> (\<exists>d. x = Inr (Some d) \<and> \<not> validateSelector pg d h)) pre"
        by blast
      from t info ts have
        "primary r = selector c \<and> rtype r = stype c \<and> rconfidence r = confidence c"
        by (auto simp: generateSelector_try_def split: sum.splits)
      with info d p v show ?thesis by blast
    qed
  qed
qed

lemma generateSelector_complete:
  assumes "getElementInfo pg h = Inr info"
      and "strategies opts esc info = pre @ Inr (Some c) # post"
      and "list_all (\<lambda>x. x = Inr None
                    \<or> (\<exists>d. x = Inr (Some d) \<and> \<not> validateSelector pg d h)) pre"
      and "validateSelector pg c h"
  shows "\<exists>fbs. generateSelector opts esc pg h
           = Inr \<lparr>primary = selector c, rtype = stype c, rconfidence = confidence c,
                  fallbacks = fbs\<rparr>"
proof -
  have ts: "try_strategies pg h (strategies opts esc info) = Inr (Some c)"
    using assms(2) try_strategies_complete [OF assms(3,4), of post] by simp
  from assms(1) obtain fbs where f: "generateFallbacks opts pg h c = Inr fbs"
    by (auto simp: generateFallbacks_def)
  have "generateSelector_try opts esc pg h
          = Inr \<lparr>primary = selector c, rtype = stype c, rconfidence = confidence c,
                 fallbacks = fbs\<rparr>"
    using assms(1) ts f by (simp add: generateSelector_try_def)
  then have "generateSelector opts esc pg h
          = Inr \<lparr>primary = selector c, rtype = stype c, rconfidence = confidence c,
                 fallbacks = fbs\<rparr>"
    by (simp add: generateSelector_def)
  then show ?thesis by blast
qed

lemma preferred_testid_first:
  assumes "truthy (map_of (info_attributes info) ''data-testid'')"
  shows "generateTestIdSelector default_generator_options info
     = Some \<lparr>selector = ''[data-testid='' @ dq
                 @ js_str (map_of (info_attributes info) ''data-testid'') @ dq @ '']'',
             stype = ''data-attribute'', confidence = 0.9,
             extra = [(''attribute'', ''data-testid''),
                      (''value'', js_str (map_of (info_attributes info) ''data-testid''))]\<rparr>"
  using assms by (simp add: generateTestIdSelector_def default_generator_options_def)

text \<open>
  Claim C2, amended. The Selector Generator tries its strategies in the fixed order
  preferred attribute (data-attribute, 0.9), id (0.8), name (0.7), role (role-text 0.75,
  or role 0.6), text (text 0.65 or 0.5, or placeholder 0.6), CSS (0.4), XPath (0.3), an
  order that is not everywhere descending in confidence. The candidate the loop accepts
  validates, and every strategy before it gave no candidate or one that did not validate.
  Every result of \<open>generateSelector\<close> above the last resorts has as primary, type and
  confidence those of the first entry of this list that validates; and whenever the
  element information is read, an entry validates and every entry before it gave no
  candidate or one that did not validate (none threw), \<open>generateSelector\<close> returns that
  entry as primary. In particular, with the default options, for every element with a
  non-empty \<open>data-testid\<close> attribute whose data-attribute selector validates, that
  selector (confidence 0.9) is the primary selector, whatever the id.
\<close>

theorem first_validated_strategy_wins:
  "list_all2 (\<lambda>s kinds. \<forall>c. s = Inr (Some c) \<longrightarrow> (stype c, confidence c) \<in> set kinds)
     (strategies opts esc info)
     [[(''data-attribute'', 0.9)], [(''id'', 0.8)], [(''name'', 0.7)],
      [(''role-text'', 0.75), (''role'', 0.6)],
      [(''text'', 0.65), (''text'', 0.5), (''placeholder'', 0.6)],
      [(''css'', 0.4)], [(''xpath'', 0.3)]]
   \<and> (try_strategies pg h cands = Inr (Some c) \<longrightarrow>
        validateSelector pg c h
        \<and> (\<exists>pre post. cands = pre @ Inr (Some c) # post
              \<and> list_all (\<lambda>x. x = Inr None
                              \<or> (\<exists>d. x = Inr (Some d) \<and> \<not> validateSelector pg d h)) pre))
   \<and> (generateSelector opts esc pg h = Inr r \<and> rconfidence r > 0.2 \<longrightarrow>
        (\<exists>info' pre c post.
            getElementInfo pg h = Inr info'
            \<and> strategies opts esc info' = pre @ Inr (Some c) # post
            \<and> list_all (\<lambda>x. x = Inr None
                            \<or> (\<exists>d. x = Inr (Some d) \<and> \<not> validateSelector pg d h)) pre
            \<and> validateSelector pg c h
            \<and> primary r = selector c \<and> rtype r = stype c \<and> rconfidence r = confidence c))
   \<and> (getElementInfo pg h = Inr info
        \<and> strategies opts esc info = pre @ Inr (Some c') # post
        \<and> list_all (\<lambda>x. x = Inr None
                        \<or> (\<exists>d. x = Inr (Some d) \<and> \<not> validateSelector pg d h)) pre
        \<and> validateSelector pg c' h
      \<longrightarrow> (\<exists>fbs. generateSelector opts esc pg h
             = Inr \<lparr>primary = selector c', rtype = stype c', rconfidence = confidence c',
                    fallbacks = fbs\<rparr>))
   \<and> (getElementInfo pg h = Inr info
        \<and> truthy (map_of (info_attributes info) ''data-testid'')
        \<and> locator_all pg (''[data-testid='' @ dq
              @ js_str (map_of (info_attributes info) ''data-testid'') @ dq @ '']'') = Inr [h]
        \<and> evaluate_rejects pg h h = None
      \<longrightarrow> (\<exists>fbs. generateSelector default_generator_options esc pg h
             = Inr \<lparr>primary = ''[data-testid='' @ dq
                        @ js_str (map_of (info_attributes info) ''data-testid'') @ dq @ '']'',
                    rtype = ''data-attribute'', rconfidence = 0.9, fallbacks = fbs\<rparr>))"
proof (intro conjI impI)
  show "list_all2 (\<lambda>s kinds. \<forall>c. s = Inr (Some c) \<longrightarrow> (stype c, confidence c) \<in> set kinds)
     (strategies opts esc info)
     [[(''data-attribute'', 0.9)], [(''id'', 0.8)], [(''name'', 0.7)],
      [(''role-text'', 0.75), (''role'', 0.6)],
      [(''text'', 0.65), (''text'', 0.5), (''placeholder'', 0.6)],
      [(''css'', 0.4)], [(''xpath'', 0.3)]]"
    by (rule strategies_kinds)
next
  assume a: "try_strategies pg h cands = Inr (Some c)"
  then show "validateSelector pg c h" by (rule try_strategies_Some)
  from a show "\<exists>pre post. cands = pre @ Inr (Some c) # post
            \<and> list_all (\<lambda>x. x = Inr None
                            \<or> (\<exists>d. x = Inr (Some d) \<and> \<not> validateSelector pg d h)) pre"
    by (rule try_strategies_first)
next
  assume "generateSelector opts esc pg h = Inr r \<and> rconfidence r > 0.2"
  then show "\<exists>info' pre c post.
            getElementInfo pg h = Inr info'
            \<and> strategies opts esc info' = pre @ Inr (Some c) # post
            \<and> list_all (\<lambda>x. x = Inr None
                            \<or> (\<exists>d. x = Inr (Some d) \<and> \<not> validateSelector pg d h)) pre
            \<and> validateSelector pg c h
            \<and> primary r = selector c \<and> rtype r = stype c \<and> rconfidence r = confidence c"
    using generateSelector_sound [of opts esc pg h r] by simp
next
  assume "getElementInfo pg h = Inr info
        \<and> strategies opts esc info = pre @ Inr (Some c') # post
        \<and> list_all (\<lambda>x. x = Inr None
                        \<or> (\<exists>d. x = Inr (Some d) \<and> \<not> validateSelector pg d h)) pre
        \<and> validateSelector pg c' h"
  then show "\<exists>fbs. generateSelector opts esc pg h
             = Inr \<lparr>primary = selector c', rtype = stype c', rconfidence = confidence c',
                    fallbacks = fbs\<rparr>"
    using generateSelector_complete [of pg h info opts esc pre c' post] by simp
next
  let ?sel = "''[data-testid='' @ dq
                @ js_str (map_of (info_attributes info) ''data-testid'') @ dq @ '']''"
  let ?cand = "\<lparr>selector = ?sel, stype = ''data-attribute'', confidence = 0.9,
                 extra = [(''attribute'', ''data-testid''),
                          (''value'', js_str (map_of (info_attributes info) ''data-testid''))]\<rparr>"
  assume a: "getElementInfo pg h = Inr info
        \<and> truthy (map_of (info_attributes info) ''data-testid'')
        \<and> locator_all pg ?sel = Inr [h]
        \<and> evaluate_rejects pg h h = None"
  then have g: "generateTestIdSelector default_generator_options info = Some ?cand"
    using preferred_testid_first [of info] by simp
  from a have v: "validateSelector pg ?cand h"
    by (simp add: validateSelector_iff)
  have s: "strategies default_generator_options esc info
             = [] @ Inr (Some ?cand) # tl (strategies default_generator_options esc info)"
    using g by (simp add: strategies_def)
  have "\<exists>fbs. generateSelector default_generator_options esc pg h
          = Inr \<lparr>primary = selector ?cand, rtype = stype ?cand,
                 rconfidence = confidence ?cand, fallbacks = fbs\<rparr>"
    using a by (intro generateSelector_complete [OF _ s _ v]) simp_all
  then show "\<exists>fbs. generateSelector default_generator_options esc pg h
             = Inr \<lparr>primary = ?sel, rtype = ''data-attribute'', rconfidence = 0.9,
                    fallbacks = fbs\<rparr>"
    by simp
qed

text \<open>
  On the page of the save button the test-id candidate is the first strategy's, it
  validates, and the result has it as primary with confidence 0.9.
\<close>

theorem first_validated_strategy_wins_witness:
  "try_strategies save_page 0 (strategies default_generator_options plain_escape save_info)
     = Inr (Some save_testid_candidate)
   \<and> validateSelector save_page save_testid_candidate 0
   \<and> getElementInfo save_page 0 = Inr save_info
   \<and> truthy (map_of (info_attributes save_info) ''data-testid'')
   \<and> generateSelector default_generator_options plain_escape save_page 0 = Inr save_result
   \<and> rconfidence save_result > 0.2
   \<and> (\<exists>info' pre c post.
         getElementInfo save_page 0 = Inr info'
         \<and> strategies default_generator_options plain_escape info' = pre @ Inr (Some c) # post
         \<and> validateSelector save_page c 0
         \<and> primary save_result = selector c)
   \<and> (\<exists>fbs. generateSelector default_generator_options plain_escape save_page 0
         = Inr \<lparr>primary = selector save_testid_candidate, rtype = stype save_testid_candidate,
                rconfidence = confidence save_testid_candidate, fallbacks = fbs\<rparr>)
   \<and> (\<exists>fbs. generateSelector default_generator_options plain_escape save_page 0
         = Inr \<lparr>primary = ''[data-testid='' @ dq @ ''save-btn'' @ dq @ '']'',
                rtype = ''data-attribute'', rconfidence = 0.9, fallbacks = fbs\<rparr>)"
proof -
  let ?S = "strategies default_generator_options plain_escape save_info"
  have i: "getElementInfo save_page 0 = Inr save_info"
    by (simp add: getElementInfo_def save_page_def table_page_def)
  have a: "map_of (info_attributes save_info) ''data-testid'' = Some ''save-btn''"
    by (simp add: save_info_def plain_info_def)
  have tr: "truthy (map_of (info_attributes save_info) ''data-testid'')"
    by (simp add: a)
  have l: "locator_all save_page (''[data-testid='' @ dq
              @ js_str (map_of (info_attributes save_info) ''data-testid'') @ dq @ '']'')
           = Inr [0]"
    by (simp add: a save_page_def table_page_def dq_def)
  have e: "evaluate_rejects save_page 0 0 = None"
    by (simp add: save_page_def table_page_def)
  have cf: "rconfidence save_result > 0.2"
    by (simp add: save_result_def)
  have d: "?S = [] @ Inr (Some save_testid_candidate) # tl ?S"
    by (simp add: generator_eval save_info_def save_testid_candidate_def)
  have p: "list_all (\<lambda>x. x = Inr None
              \<or> (\<exists>d. x = Inr (Some d) \<and> \<not> validateSelector save_page d 0)) []"
    by simp
  note t = first_validated_strategy_wins
             [where pg = save_page and h = 0 and cands = ?S and c = save_testid_candidate
                and opts = default_generator_options and esc = plain_escape
                and info = save_info and r = save_result and pre = "[]"
                and c' = save_testid_candidate and post = "tl ?S"]
  note t2 = t [THEN conjunct2, THEN conjunct1, THEN mp, OF save_page_strategies]
  note v = t2 [THEN conjunct1]
  note t3 = t [THEN conjunct2, THEN conjunct2, THEN conjunct1, THEN mp,
               OF conjI [OF save_page_result cf]]
  note t4 = t [THEN conjunct2, THEN conjunct2, THEN conjunct2, THEN conjunct1, THEN mp,
               OF conjI [OF i conjI [OF d conjI [OF p v]]]]
  note t5 = t [THEN conjunct2, THEN conjunct2, THEN conjunct2, THEN conjunct2, THEN mp,
               OF conjI [OF i conjI [OF tr conjI [OF l e]]]]
  from t3 have s3: "\<exists>info' pre c post.
         getElementInfo save_page 0 = Inr info'
         \<and> strategies default_generator_options plain_escape info' = pre @ Inr (Some c) # post
         \<and> validateSelector save_page c 0
         \<and> primary save_result = selector c"
    by (elim exE conjE) (intro exI conjI; assumption)
  from t5 have s5: "\<exists>fbs. generateSelector default_generator_options plain_escape save_page 0
         = Inr \<lparr>primary = ''[data-testid='' @ dq @ ''save-btn'' @ dq @ '']'',
                rtype = ''data-attribute'', rconfidence = 0.9, fallbacks = fbs\<rparr>"
    by (simp add: a)
  show ?thesis
    by (intro conjI save_page_strategies v i tr save_page_result cf s3 t4 s5)
qed

text \<open>
  Claim C3 fails on the code. The element \<open><div id="deadbeef">\<close> has an id that matches
  the pure-hex pattern, so the id strategy skips it; but \<open>id\<close> is also the last of the
  preferred attributes, and the preferred-attribute strategy, which comes first and does
  not ask \<open>isStableId\<close>, makes \<open>[id="deadbeef"]\<close> the primary selector. Where that selector
  is not unique, the XPath strategy, which does not ask either, makes
  \<open>xpath=//div[@id="deadbeef"]\<close> the primary selector.
\<close>

theorem unstable_id_chosen_as_selector_basis:
  "long_hex (info_id hex_id_info)
   \<and> \<not> isStableId (info_id hex_id_info)
   \<and> generateSelector default_generator_options plain_escape hex_id_page 0
       = Inr \<lparr>primary = ''[id='' @ dq @ ''deadbeef'' @ dq @ '']'', rtype = ''data-attribute'',
              rconfidence = 0.9, fallbacks = []\<rparr>
   \<and> generateSelector default_generator_options plain_escape hex_id_shared_page 0
       = Inr \<lparr>primary = ''xpath=//div[@id='' @ dq @ ''deadbeef'' @ dq @ '']'',
              rtype = ''xpath'', rconfidence = 0.3, fallbacks = []\<rparr>"
proof (intro conjI)
  show "long_hex (info_id hex_id_info)"
    by (simp add: generator_eval hex_id_info_def)
  show "\<not> isStableId (info_id hex_id_info)"
    by (simp add: generator_eval hex_id_info_def)
  show "generateSelector default_generator_options plain_escape hex_id_page 0
       = Inr \<lparr>primary = ''[id='' @ dq @ ''deadbeef'' @ dq @ '']'', rtype = ''data-attribute'',
              rconfidence = 0.9, fallbacks = []\<rparr>"
    by (simp add: generator_eval hex_id_page_def hex_id_info_def)
  show "generateSelector default_generator_options plain_escape hex_id_shared_page 0
       = Inr \<lparr>primary = ''xpath=//div[@id='' @ dq @ ''deadbeef'' @ dq @ '']'',
              rtype = ''xpath'', rconfidence = 0.3, fallbacks = []\<rparr>"
    by (simp add: generator_eval hex_id_shared_page_def hex_id_info_def)
qed

text \<open>
  Claim C4 fails on the code. On a page whose evaluations reject, \<open>getElementInfo\<close> throws
  inside the \<open>try\<close> block; the \<open>catch\<close> block then awaits \<open>getElementIndex\<close>, which
  rejects as well, and this exception reaches the caller of \<open>generateSelector\<close>.
\<close>

theorem generateSelector_propagates_exception:
  "getElementInfo closed_page 0 = Inl (JsError ''Target closed'')
   \<and> getElementIndex closed_page 0 = Inl (JsError ''Target closed'')
   \<and> generateSelector default_generator_options plain_escape closed_page 0
       = Inl (JsError ''Target closed'')"
  by (simp add: generateSelector_def generateSelector_try_def getElementInfo_def
        getElementIndex_def closed_page_def)

section \<open>Properties of the recorder\<close>

text \<open>
  Claim C8 fails on the code. \<open>startRecording\<close> never reads \<open>isRecording\<close>: called while
  a recording is in progress it succeeds again, launches a second browser whose handle
  replaces the first in the recorder, and replaces the buffer and the test name.
\<close>

theorem second_startRecording_replaces_session:
  "fst first_session = Inr True
   \<and> isRecording (fst (snd first_session))
   \<and> browser (fst (snd first_session)) = Some 0
   \<and> fst second_session = Inr True
   \<and> browser (fst (snd second_session)) = Some 3
   \<and> testName (fst (snd second_session)) = Some ''second''
   \<and> recordedActions (fst (snd second_session))
       = [Action ''navigation'' 1000 None None (Some ''https://example.test/b'') None None
            None None [] None None]"
  by (simp add: second_session_def first_session_def startRecording_def working_world_def
        new_recorder_def recordAction_def Let_def)

section \<open>Timestamps through the parser pipeline\<close>

text \<open>
  No stage invents a timestamp: the timestamp of every Test Step is that of an input
  record, or that of an input record plus one (a synthetic wait).
\<close>

lemma rra_set: "set (removeRedundantActions acts) \<subseteq> set acts"
  by (induction acts) auto

lemma finalizeGroup_timestamps:
  "timestamp ` set (finalizeGroup grp t) \<subseteq> timestamp ` set grp"
  by (auto simp: finalizeGroup_def split: list.splits)

lemma groupLoop_timestamps:
  "timestamp ` set (groupLoop acts grouped cg t)
     \<subseteq> timestamp ` (set acts \<union> set grouped \<union> set cg)"
proof (induction acts arbitrary: grouped cg t)
  case Nil
  show ?case using finalizeGroup_timestamps [of cg t] by auto
next
  case (Cons a acts)
  let ?T = "timestamp ` (set (a # acts) \<union> set grouped \<union> set cg)"
  have key: "timestamp ` set (groupLoop acts G' cg' t') \<subseteq> ?T"
    if "timestamp ` set G' \<subseteq> timestamp ` (insert a (set grouped \<union> set cg))"
       "timestamp ` set cg' \<subseteq> timestamp ` (insert a (set cg))" for G' cg' t'
  proof -
    have "timestamp ` (set acts \<union> set G' \<union> set cg') \<subseteq> ?T"
      using that by (simp only: image_Un image_insert set_simps) blast
    with Cons.IH [of G' cg' t'] show ?thesis by (rule subset_trans)
  qed
  have f: "timestamp ` set (grouped @ finalizeGroup cg t)
             \<subseteq> timestamp ` (insert a (set grouped \<union> set cg))"
    using finalizeGroup_timestamps [of cg t] by (simp only: set_append image_Un image_insert) blast
  have g: "timestamp ` set grouped \<subseteq> timestamp ` (insert a (set grouped \<union> set cg))"
    by blast
  have fa: "timestamp ` set ((grouped @ finalizeGroup cg t) @ [a])
             \<subseteq> timestamp ` (insert a (set grouped \<union> set cg))"
    using f by (simp only: set_append image_Un image_insert set_simps) blast
  have ga: "timestamp ` set (grouped @ [a]) \<subseteq> timestamp ` (insert a (set grouped \<union> set cg))"
    by (simp only: set_append image_Un image_insert set_simps) blast
  have c1: "timestamp ` set [a] \<subseteq> timestamp ` (insert a (set cg))" by simp
  have c2: "timestamp ` set (cg @ [a]) \<subseteq> timestamp ` (insert a (set cg))" by auto
  have c3: "timestamp ` set ([]::action list) \<subseteq> timestamp ` (insert a (set cg))" by simp
  define G1 where "G1 = (if 0 < length cg then grouped @ finalizeGroup cg t else grouped)"
  have g1: "timestamp ` set G1 \<subseteq> timestamp ` (insert a (set grouped \<union> set cg))"
    unfolding G1_def using f g by (cases "0 < length cg") (simp_all only: if_True if_False)
  have g1a: "timestamp ` set (G1 @ [a]) \<subseteq> timestamp ` (insert a (set grouped \<union> set cg))"
    unfolding G1_def using fa ga by (cases "0 < length cg") (simp_all only: if_True if_False)
  let ?form = "atype a \<in> {''input'', ''select'', ''click''} \<and> isFormElement (element a)"
  consider (form_new) "?form" "t \<noteq> Some ''form''"
    | (form_add) "?form" "t = Some ''form''"
    | (nav) "\<not> ?form" "atype a = ''navigation''"
    | (general_new) "\<not> ?form" "atype a \<noteq> ''navigation''" "truthy t \<and> t \<noteq> Some ''general''"
    | (general_add) "\<not> ?form" "atype a \<noteq> ''navigation''" "\<not> (truthy t \<and> t \<noteq> Some ''general'')"
    by blast
  then show ?case
  proof cases
    case form_new
    then have "groupLoop (a # acts) grouped cg t = groupLoop acts G1 [a] (Some ''form'')"
      unfolding G1_def by (simp only: groupLoop.simps if_True if_False simp_thms)
    then show ?thesis using key [OF g1 c1] by simp
  next
    case form_add
    then have "groupLoop (a # acts) grouped cg t = groupLoop acts grouped (cg @ [a]) t"
      by (simp only: groupLoop.simps if_True if_False simp_thms)
    then show ?thesis using key [OF g c2] by simp
  next
    case nav
    then have "groupLoop (a # acts) grouped cg t = groupLoop acts (G1 @ [a]) [] None"
      unfolding G1_def by (simp only: groupLoop.simps if_True if_False simp_thms)
    then show ?thesis using key [OF g1a c3] by simp
  next
    case general_new
    then have "groupLoop (a # acts) grouped cg t
                 = groupLoop acts (grouped @ finalizeGroup cg t) [a] (Some ''general'')"
      by (simp only: groupLoop.simps if_True if_False simp_thms)
    then show ?thesis using key [OF f c1] by simp
  next
    case general_add
    then have "groupLoop (a # acts) grouped cg t
                 = groupLoop acts grouped (cg @ [a]) (Some ''general'')"
      by (simp only: groupLoop.simps if_True if_False simp_thms)
    then show ?thesis using key [OF g c2] by simp
  qed
qed

lemma groupSequentialActions_timestamps:
  "timestamp ` set (groupSequentialActions acts) \<subseteq> timestamp ` set acts"
  using groupLoop_timestamps [of acts "[]" "[]" None] by (simp add: groupSequentialActions_def)

lemma addWaitStrategies_timestamps:
  "timestamp ` set (addWaitStrategies opts acts)
     \<subseteq> timestamp ` set acts \<union> (\<lambda>a. timestamp a + 1) ` set acts"
  by (induction acts) (auto simp: wait_record_def split: option.splits)

lemma optimizeFormFilling_timestamps:
  "map timestamp (optimizeFormFilling acts) = map timestamp acts"
  by (simp add: optimizeFormFilling_def)

lemma optimizeNavigation_timestamps:
  "map timestamp (optimizeNavigation acts) = map timestamp acts"
proof -
  have "map timestamp (optimizeNavigation acts) = map (timestamp \<circ> snd) (List.enumerate 0 acts)"
    by (auto simp: optimizeNavigation_def case_prod_unfold)
  then show ?thesis by (simp add: map_snd_enumerate flip: map_map)
qed

lemma convertToTestSteps_timestamps:
  "map step_timestamp (convertToTestSteps acts) = map timestamp acts"
proof -
  have "map step_timestamp (convertToTestSteps acts)
          = map (timestamp \<circ> snd) (List.enumerate 0 acts)"
    by (auto simp: convertToTestSteps_def case_prod_unfold)
  then show ?thesis by (simp add: map_snd_enumerate flip: map_map)
qed

lemma pipeline_timestamps:
  "step_timestamp ` set (optimizeActions opts (Arr acts))
     \<subseteq> timestamp ` set acts \<union> (\<lambda>a. timestamp a + 1) ` set acts"
proof (cases "acts = []")
  case True
  then show ?thesis by (simp add: optimizeActions_def)
next
  case False
  let ?r = "removeRedundantActions acts"
  let ?g = "groupSequentialActions ?r"
  let ?w = "addWaitStrategies opts ?g"
  have "step_timestamp ` set (optimizeActions opts (Arr acts))
          = set (map step_timestamp (optimizeActions opts (Arr acts)))"
    by simp
  also have "\<dots> = set (map timestamp ?w)"
    using False
    by (simp only: optimizeActions_def recorded.case convertToTestSteps_timestamps
          optimizeNavigation_timestamps optimizeFormFilling_timestamps length_0_conv if_False)
  also have "\<dots> = timestamp ` set ?w" by simp
  also have "\<dots> \<subseteq> timestamp ` set ?g \<union> (\<lambda>a. timestamp a + 1) ` set ?g"
    by (rule addWaitStrategies_timestamps)
  also have "\<dots> \<subseteq> timestamp ` set acts \<union> (\<lambda>a. timestamp a + 1) ` set acts"
  proof -
    have "timestamp ` set ?g \<subseteq> timestamp ` set acts"
      using groupSequentialActions_timestamps [of ?r] rra_set [of acts] by blast
    then show ?thesis by force
  qed
  finally show ?thesis .
qed

end
